theory Spec2Isabelle
  imports Complex_Main "HOL-Library.AList" "HOL-Library.Sublist"
begin

section \<open>Data model (telltale/core/models.py)\<close>

text \<open>
  \<^verbatim>\<open>class EvidenceStrength(str, Enum)\<close>: the five strengths, in the order of the source.
\<close>

datatype EvidenceStrength = CONFIRMS | RULES_OUT | SUGGESTS | SUGGESTS_AGAINST | INCONCLUSIVE

text \<open>
  The value of a \<^verbatim>\<open>threshold\<close> property: a number or a list of numbers. Sensor values
  and thresholds are Python floats; the model takes them as rationals, on which
  \<open><\<close>, \<open>>\<close> and \<open>=\<close> agree with the comparisons of finite floats.
\<close>

datatype threshold = TNum rat | TList "rat list"

datatype NodeKind = Observation | SensorReading

text \<open>
  An \<^verbatim>\<open>EVIDENCE_FOR\<close> relationship as the store holds it: the label and name of its
  source node, the name of the failure mode it points to, and its properties. Every
  property is optional (\<^verbatim>\<open>EvidenceProperties\<close>); an absent property reads as
  \<^verbatim>\<open>null\<close> in a query, here \<open>None\<close>. The operator is the stored string that the
  queries compare with their literals.
\<close>

record EvidenceLink =
  source_kind :: NodeKind
  source :: string
  target :: string
  when_true_strength :: "EvidenceStrength option"
  when_false_strength :: "EvidenceStrength option"
  operator :: "string option"
  threshold :: "threshold option"

text \<open>
  The graph snapshot the queries run on: the \<^verbatim>\<open>FailureMode\<close> nodes by name, in the
  order \<^verbatim>\<open>MATCH (fm:FailureMode)\<close> finds them, the \<^verbatim>\<open>CAUSES\<close> relationships as
  pairs (failure mode, observation), and the \<^verbatim>\<open>EVIDENCE_FOR\<close> relationships. Nodes
  are identified by label and name (the schema requires names unique per label).
\<close>

record Graph =
  failure_modes :: "string list"
  causes :: "(string \<times> string) list"
  evidence :: "EvidenceLink list"

text \<open>\<^verbatim>\<open>class DiagnosticResult(BaseModel)\<close>\<close>

record DiagnosticResult =
  failure_mode :: string
  confidence :: EvidenceStrength
  supporting_evidence :: "string list"
  contradicting_evidence :: "string list"
  explanation :: "string option"

text \<open>A Python \<^verbatim>\<open>Dict[str, float]\<close>: keys with their values, in insertion order.\<close>

type_synonym sensor_dict = "(string \<times> rat) list"

section \<open>The diagnosis query (DiagnosticEngine.diagnose)\<close>

subsection \<open>Comparisons of the query language\<close>

text \<open>
  A condition of the query is true, false or \<^verbatim>\<open>null\<close>; a \<^verbatim>\<open>WHEN\<close> branch is taken
  only when its condition is true. Comparing with \<^verbatim>\<open>null\<close> gives \<^verbatim>\<open>null\<close>; a number
  and a list are never equal, and ordering them gives \<^verbatim>\<open>null\<close>.
\<close>

type_synonym tv = "bool option"

definition cy_and :: "tv \<Rightarrow> tv \<Rightarrow> tv" where
  "cy_and a b =
     (if a = Some False \<or> b = Some False then Some False
      else if a = None \<or> b = None then None
      else Some True)"

definition op_is :: "string option \<Rightarrow> string \<Rightarrow> tv" where
  "op_is operator' lit = (case operator' of None \<Rightarrow> None | Some s \<Rightarrow> Some (s = lit))"

fun cy_lt :: "rat option \<Rightarrow> threshold option \<Rightarrow> tv" where
  "cy_lt (Some v) (Some (TNum t)) = Some (v < t)"
| "cy_lt _ _ = None"

fun cy_gt :: "rat option \<Rightarrow> threshold option \<Rightarrow> tv" where
  "cy_gt (Some v) (Some (TNum t)) = Some (v > t)"
| "cy_gt _ _ = None"

fun cy_le :: "rat option \<Rightarrow> threshold option \<Rightarrow> tv" where
  "cy_le (Some v) (Some (TNum t)) = Some (v \<le> t)"
| "cy_le _ _ = None"

fun cy_ge :: "rat option \<Rightarrow> threshold option \<Rightarrow> tv" where
  "cy_ge (Some v) (Some (TNum t)) = Some (v \<ge> t)"
| "cy_ge _ _ = None"

fun cy_eq :: "rat option \<Rightarrow> threshold option \<Rightarrow> tv" where
  "cy_eq (Some v) (Some (TNum t)) = Some (v = t)"
| "cy_eq (Some v) (Some (TList ts)) = Some False"
| "cy_eq _ _ = None"

fun cy_ne :: "rat option \<Rightarrow> threshold option \<Rightarrow> tv" where
  "cy_ne (Some v) (Some (TNum t)) = Some (v \<noteq> t)"
| "cy_ne (Some v) (Some (TList ts)) = Some True"
| "cy_ne _ _ = None"

definition taken :: "tv \<Rightarrow> bool" where
  "taken c = (c = Some True)"

text \<open>\<^verbatim>\<open>collect(...)\<close> skips \<^verbatim>\<open>null\<close> values.\<close>

fun collect :: "'a option list \<Rightarrow> 'a list" where
  "collect [] = []"
| "collect (None # xs) = collect xs"
| "collect (Some x # xs) = x # collect xs"

subsection \<open>Candidates and evidence rows\<close>

text \<open>
  \<^verbatim>\<open>MATCH (fm:FailureMode) WHERE EXISTS { MATCH (fm)-[:CAUSES]->(o:Observation)
  WHERE o.name IN $observations }\<close>
\<close>

definition is_candidate :: "Graph \<Rightarrow> string list \<Rightarrow> string \<Rightarrow> bool" where
  "is_candidate g observations fm =
     list_ex (\<lambda>c. fst c = fm \<and> snd c \<in> set observations) (causes g)"

definition candidates :: "Graph \<Rightarrow> string list \<Rightarrow> string list" where
  "candidates g observations = filter (is_candidate g observations) (failure_modes g)"

text \<open>
  \<^verbatim>\<open>OPTIONAL MATCH (o:Observation)-[e:EVIDENCE_FOR]->(fm) WHERE o.name IN $observations\<close>
  and \<^verbatim>\<open>OPTIONAL MATCH (s:SensorReading)-[e:EVIDENCE_FOR]->(fm) WHERE s.name IN
  $sensor_names\<close>. When nothing matches, the collected map has a \<^verbatim>\<open>null\<close> name and
  \<^verbatim>\<open>WHERE evidence.name IS NOT NULL\<close> removes it after the \<^verbatim>\<open>UNWIND\<close>, so the rows
  that remain are exactly the matching relationships.
\<close>

definition observation_evidence :: "Graph \<Rightarrow> string list \<Rightarrow> string \<Rightarrow> EvidenceLink list" where
  "observation_evidence g observations fm =
     filter (\<lambda>e. source_kind e = Observation \<and> target e = fm \<and> source e \<in> set observations)
       (evidence g)"

definition sensor_evidence :: "Graph \<Rightarrow> sensor_dict \<Rightarrow> string \<Rightarrow> EvidenceLink list" where
  "sensor_evidence g sensor_readings fm =
     filter (\<lambda>e. source_kind e = SensorReading \<and> target e = fm
                 \<and> source e \<in> set (map fst sensor_readings))
       (evidence g)"

definition all_evidence :: "Graph \<Rightarrow> string list \<Rightarrow> sensor_dict \<Rightarrow> string \<Rightarrow> EvidenceLink list" where
  "all_evidence g observations sensor_readings fm =
     observation_evidence g observations fm @ sensor_evidence g sensor_readings fm"

text \<open>\<^verbatim>\<open>$sensor_readings[evidence_name]\<close>\<close>

definition reading :: "sensor_dict \<Rightarrow> EvidenceLink \<Rightarrow> rat option" where
  "reading sensor_readings e = map_of sensor_readings (source e)"

text \<open>The three \<^verbatim>\<open>CASE\<close> expressions computed for every row.\<close>

definition effective_strength :: "sensor_dict \<Rightarrow> EvidenceLink \<Rightarrow> EvidenceStrength option" where
  "effective_strength sr e =
     (if source_kind e = SensorReading then
        (if taken (cy_and (op_is (operator e) ''<'') (cy_lt (reading sr e) (threshold e)))
           then when_true_strength e
         else if taken (cy_and (op_is (operator e) ''>'') (cy_gt (reading sr e) (threshold e)))
           then when_true_strength e
         else if taken (cy_and (op_is (operator e) ''='') (cy_eq (reading sr e) (threshold e)))
           then when_true_strength e
         else None)
      else when_true_strength e)"

definition contradicting_flag :: "sensor_dict \<Rightarrow> EvidenceLink \<Rightarrow> bool" where
  "contradicting_flag sr e =
     (source_kind e = SensorReading \<and>
        (taken (cy_and (op_is (operator e) ''<'') (cy_ge (reading sr e) (threshold e)))
         \<or> taken (cy_and (op_is (operator e) ''>'') (cy_le (reading sr e) (threshold e)))
         \<or> taken (cy_and (op_is (operator e) ''='') (cy_ne (reading sr e) (threshold e)))))"

definition when_false_strength_value :: "sensor_dict \<Rightarrow> EvidenceLink \<Rightarrow> EvidenceStrength option" where
  "when_false_strength_value sr e =
     (if source_kind e = SensorReading then
        (if taken (cy_and (op_is (operator e) ''<'') (cy_ge (reading sr e) (threshold e)))
           then when_false_strength e
         else if taken (cy_and (op_is (operator e) ''>'') (cy_le (reading sr e) (threshold e)))
           then when_false_strength e
         else if taken (cy_and (op_is (operator e) ''='') (cy_ne (reading sr e) (threshold e)))
           then when_false_strength e
         else None)
      else None)"

subsection \<open>Aggregation per failure mode\<close>

definition strengths :: "sensor_dict \<Rightarrow> EvidenceLink list \<Rightarrow> EvidenceStrength list" where
  "strengths sr rows = collect (map (effective_strength sr) rows)"

definition false_strengths :: "sensor_dict \<Rightarrow> EvidenceLink list \<Rightarrow> EvidenceStrength list" where
  "false_strengths sr rows = collect (map (when_false_strength_value sr) rows)"

definition is_ruled_out :: "sensor_dict \<Rightarrow> EvidenceLink list \<Rightarrow> bool" where
  "is_ruled_out sr rows = (RULES_OUT \<in> set (false_strengths sr rows))"

definition overall_confidence :: "sensor_dict \<Rightarrow> EvidenceLink list \<Rightarrow> EvidenceStrength" where
  "overall_confidence sr rows =
     (if is_ruled_out sr rows then RULES_OUT
      else if length (filter (contradicting_flag sr) rows) > 0 then INCONCLUSIVE
      else if length (filter (\<lambda>x. x = CONFIRMS) (strengths sr rows)) > 0 then CONFIRMS
      else if length (filter (\<lambda>x. x = SUGGESTS) (strengths sr rows)) > 0 then SUGGESTS
      else if length (filter (\<lambda>x. x = SUGGESTS_AGAINST) (strengths sr rows)) > 0
        then SUGGESTS_AGAINST
      else if length (filter (\<lambda>x. x = RULES_OUT) (strengths sr rows)) > 0 then RULES_OUT
      else INCONCLUSIVE)"

text \<open>
  The record built for one failure mode from its rows. \<^verbatim>\<open>supporting_evidence\<close> is
  \<^verbatim>\<open>collect(evidence_name)\<close> over all rows; \<^verbatim>\<open>contradicting_evidence\<close> keeps the
  names of the rows flagged \<^verbatim>\<open>'contradicting'\<close>.
\<close>

definition result_of :: "sensor_dict \<Rightarrow> string \<Rightarrow> EvidenceLink list \<Rightarrow> DiagnosticResult" where
  "result_of sr fm rows =
     \<lparr> failure_mode = fm,
       confidence = overall_confidence sr rows,
       supporting_evidence = map source rows,
       contradicting_evidence = map source (filter (contradicting_flag sr) rows),
       explanation = None \<rparr>"

text \<open>
  A failure mode without rows leaves the \<^verbatim>\<open>UNWIND\<close> with nothing and is not grouped;
  \<^verbatim>\<open>WHERE confidence <> 'rules_out'\<close> drops the ruled-out ones.
\<close>

definition grouped :: "Graph \<Rightarrow> string list \<Rightarrow> sensor_dict \<Rightarrow> DiagnosticResult list" where
  "grouped g observations sr =
     map (\<lambda>fm. result_of sr fm (all_evidence g observations sr fm))
       (filter (\<lambda>fm. all_evidence g observations sr fm \<noteq> []) (candidates g observations))"

text \<open>The \<^verbatim>\<open>ORDER BY CASE confidence ...\<close>; a \<^verbatim>\<open>null\<close> key sorts last.\<close>

fun confidence_rank :: "EvidenceStrength \<Rightarrow> nat" where
  "confidence_rank CONFIRMS = 0"
| "confidence_rank SUGGESTS = 1"
| "confidence_rank SUGGESTS_AGAINST = 2"
| "confidence_rank INCONCLUSIVE = 3"
| "confidence_rank RULES_OUT = 4"

text \<open>
  \<^verbatim>\<open>diagnose(observations, sensor_readings)\<close> with \<^verbatim>\<open>include_explanations=False\<close>:
  \<^verbatim>\<open>sensor_readings or {}\<close>, the query, and the conversion of its rows. Rows of equal
  rank are kept in the order of their failure modes.
\<close>

definition diagnose :: "Graph \<Rightarrow> string list \<Rightarrow> sensor_dict option \<Rightarrow> DiagnosticResult list" where
  "diagnose g observations sensor_readings =
     (let sr = (case sensor_readings of None \<Rightarrow> [] | Some d \<Rightarrow> d)
      in sort_key (\<lambda>r. confidence_rank (confidence r))
           (filter (\<lambda>r. confidence r \<noteq> RULES_OUT) (grouped g observations sr)))"

subsection \<open>The evidence aggregator of the specification\<close>

text \<open>
  The contributions as section 4.1 of the specification words them, for comparison
  with what the query computes. An observation edge whose source is among the observed
  names contributes \<^verbatim>\<open>when_true_strength\<close> as supporting. A sensor edge whose sensor
  has a value \<open>v\<close> evaluates \<open>operator(v, threshold)\<close> for the operators \<open>=\<close>,
  \<open><\<close>, \<open>>\<close>, \<open><=\<close>, \<open>>=\<close> and \<open>in\<close>, and contributes \<^verbatim>\<open>when_true_strength\<close> as
  supporting when it is true and \<^verbatim>\<open>when_false_strength\<close> as contradicting when it
  is false. Any other edge contributes nothing.
\<close>

datatype polarity = Supporting | Contradicting

text \<open>
  The order operators apply to a numeric threshold, \<open>in\<close> to a list; a number is
  never equal to a list. An operator outside the six, or one that does not apply to
  the threshold, has no value.
\<close>

definition spec_operator :: "string \<Rightarrow> rat \<Rightarrow> threshold \<Rightarrow> bool option" where
  "spec_operator oper v thr =
     (case thr of
        TNum t \<Rightarrow>
          (if oper = ''='' then Some (v = t)
           else if oper = ''<'' then Some (v < t)
           else if oper = ''>'' then Some (v > t)
           else if oper = ''<='' then Some (v \<le> t)
           else if oper = ''>='' then Some (v \<ge> t)
           else None)
      | TList ts \<Rightarrow>
          (if oper = ''in'' then Some (v \<in> set ts)
           else if oper = ''='' then Some False
           else None))"

definition spec_sensor_holds :: "sensor_dict \<Rightarrow> EvidenceLink \<Rightarrow> bool option" where
  "spec_sensor_holds sr e =
     (case map_of sr (source e) of
        None \<Rightarrow> None
      | Some v \<Rightarrow>
          (case operator e of
             None \<Rightarrow> None
           | Some oper \<Rightarrow>
               (case threshold e of
                  None \<Rightarrow> None
                | Some thr \<Rightarrow> spec_operator oper v thr)))"

definition spec_contribution ::
  "string list \<Rightarrow> sensor_dict \<Rightarrow> EvidenceLink
     \<Rightarrow> (string \<times> EvidenceStrength option \<times> polarity) option" where
  "spec_contribution observations sr e =
     (if source_kind e = Observation then
        (if source e \<in> set observations
         then Some (source e, when_true_strength e, Supporting) else None)
      else
        (case spec_sensor_holds sr e of
           None \<Rightarrow> None
         | Some holds \<Rightarrow>
             (if holds then Some (source e, when_true_strength e, Supporting)
              else Some (source e, when_false_strength e, Contradicting))))"

definition spec_contributions ::
  "Graph \<Rightarrow> string list \<Rightarrow> sensor_dict \<Rightarrow> string
     \<Rightarrow> (string \<times> EvidenceStrength option \<times> polarity) list" where
  "spec_contributions g observations sr fm =
     collect (map (spec_contribution observations sr)
                (filter (\<lambda>e. target e = fm) (evidence g)))"

definition spec_supporting ::
  "Graph \<Rightarrow> string list \<Rightarrow> sensor_dict \<Rightarrow> string \<Rightarrow> (string \<times> EvidenceStrength option) list" where
  "spec_supporting g observations sr fm =
     map (\<lambda>c. (fst c, fst (snd c)))
       (filter (\<lambda>c. snd (snd c) = Supporting) (spec_contributions g observations sr fm))"

definition spec_contradicting ::
  "Graph \<Rightarrow> string list \<Rightarrow> sensor_dict \<Rightarrow> string \<Rightarrow> (string \<times> EvidenceStrength option) list" where
  "spec_contradicting g observations sr fm =
     map (\<lambda>c. (fst c, fst (snd c)))
       (filter (\<lambda>c. snd (snd c) = Contradicting) (spec_contributions g observations sr fm))"

text \<open>
  The values of \<^verbatim>\<open>ComparisonOperator\<close> for which the three \<^verbatim>\<open>CASE\<close> expressions of
  the query have no \<^verbatim>\<open>WHEN\<close> branch.
\<close>

definition missed_operator :: "EvidenceLink \<Rightarrow> bool" where
  "missed_operator e = (operator e \<in> {Some ''<='', Some ''>='', Some ''in''})"

text \<open>The failure mode is in the output, and every record of it carries the confidence.\<close>

definition reported :: "DiagnosticResult list \<Rightarrow> string \<Rightarrow> EvidenceStrength \<Rightarrow> bool" where
  "reported out fm c =
     (fm \<in> set (map failure_mode out) \<and>
      list_all (\<lambda>r. confidence r = c) (filter (\<lambda>r. failure_mode r = fm) out))"

text \<open>
  The comparison an operator stands for in the specification, for the three operators
  the query evaluates: \<open><\<close>, \<open>>\<close> and \<open>=\<close> on the sensor value and the threshold.
\<close>

definition spec_compare :: "string \<Rightarrow> rat \<Rightarrow> rat \<Rightarrow> bool" where
  "spec_compare oper v t =
     (if oper = ''<'' then v < t else if oper = ''>'' then v > t else v = t)"

section \<open>Test recommendations (DiagnosticEngine.get_test_recommendations)\<close>

datatype error = ValueError | TypeError | ValidationError | QueryError

text \<open>\<^verbatim>\<open>class TestRecommendation(BaseModel)\<close>\<close>

record TestRecommendation =
  rec_name :: string
  rec_type :: string
  strength_if_true :: EvidenceStrength
  would_help_with :: "string list"
  rec_operator :: "string option"
  rec_threshold :: "threshold option"

text \<open>
  A row of the query: the evidence node \<^verbatim>\<open>ev\<close> (label and name) and the other
  grouping keys of the \<^verbatim>\<open>WITH\<close> clause, then the collected names.
\<close>

type_synonym group_key =
  "NodeKind \<times> string \<times> string option \<times> threshold option \<times> EvidenceStrength option"

definition key_of :: "EvidenceLink \<Rightarrow> group_key" where
  "key_of e = (source_kind e, source e, operator e, threshold e, when_true_strength e)"

text \<open>The first occurrence of every element, in order (grouping and \<^verbatim>\<open>DISTINCT\<close>).\<close>

definition first_occurrences :: "'a list \<Rightarrow> 'a list" where
  "first_occurrences xs = rev (remdups (rev xs))"

text \<open>
  \<^verbatim>\<open>MATCH (ev)-[e:EVIDENCE_FOR]->(fm) WHERE NOT ev.name IN $observations AND
  (ev:Observation OR ev:SensorReading)\<close>, for every candidate \<^verbatim>\<open>fm\<close>.
\<close>

definition matched :: "Graph \<Rightarrow> string list \<Rightarrow> (group_key \<times> string) list" where
  "matched g observations =
     concat (map (\<lambda>fm. map (\<lambda>e. (key_of e, fm))
                          (filter (\<lambda>e. target e = fm \<and> source e \<notin> set observations)
                             (evidence g)))
                 (candidates g observations))"

definition recommendation_groups :: "Graph \<Rightarrow> string list \<Rightarrow> (group_key \<times> string list) list" where
  "recommendation_groups g observations =
     map (\<lambda>k. (k, first_occurrences (map snd (filter (\<lambda>m. fst m = k) (matched g observations)))))
       (first_occurrences (map fst (matched g observations)))"

text \<open>\<^verbatim>\<open>ORDER BY size(would_help_with) DESC\<close>; equal sizes keep their order.\<close>

definition recommendation_query :: "Graph \<Rightarrow> string list \<Rightarrow> (group_key \<times> string list) list" where
  "recommendation_query g observations =
     sort_key (\<lambda>r. - int (length (snd r))) (recommendation_groups g observations)"

text \<open>
  The values of \<^verbatim>\<open>ComparisonOperator\<close>; its \<^verbatim>\<open>_missing_\<close> also reads \<^verbatim>\<open>"=="\<close> as
  \<^verbatim>\<open>EQUALS\<close>.
\<close>

definition operator_values :: "string list" where
  "operator_values = [''='', ''<'', ''>'', ''<='', ''>='', ''in'']"

definition to_operator :: "string option \<Rightarrow> error + string option" where
  "to_operator x =
     (case x of
        None \<Rightarrow> Inr None
      | Some s \<Rightarrow>
          if s \<in> set operator_values then Inr (Some s)
          else if s = ''=='' then Inr (Some ''='')
          else Inl ValidationError)"

text \<open>
  One \<^verbatim>\<open>TestRecommendation(...)\<close> of the comprehension:
  \<^verbatim>\<open>EvidenceStrength(r["strength_if_true"])\<close> raises on \<^verbatim>\<open>None\<close>, and the model
  validates the operator.
\<close>

fun to_recommendation :: "group_key \<times> string list \<Rightarrow> error + TestRecommendation" where
  "to_recommendation ((kind, nm, oper, thr, str), helps) =
     (case str of
        None \<Rightarrow> Inl ValueError
      | Some s \<Rightarrow>
          (case to_operator oper of
             Inl err \<Rightarrow> Inl err
           | Inr oper' \<Rightarrow>
               Inr \<lparr> rec_name = nm,
                     rec_type = (if kind = Observation then ''observation'' else ''sensor_reading''),
                     strength_if_true = s,
                     would_help_with = helps,
                     rec_operator = oper',
                     rec_threshold = thr \<rparr>))"

text \<open>A list comprehension whose element expression may raise: the first error ends it.\<close>

fun map_raise :: "('a \<Rightarrow> error + 'b) \<Rightarrow> 'a list \<Rightarrow> error + 'b list" where
  "map_raise f [] = Inr []"
| "map_raise f (x # xs) =
     (case f x of
        Inl err \<Rightarrow> Inl err
      | Inr y \<Rightarrow> (case map_raise f xs of Inl err \<Rightarrow> Inl err | Inr ys \<Rightarrow> Inr (y # ys)))"

definition get_test_recommendations :: "Graph \<Rightarrow> string list \<Rightarrow> error + TestRecommendation list" where
  "get_test_recommendations g current_observations =
     map_raise to_recommendation (recommendation_query g current_observations)"

section \<open>Truth table (telltale/core/truth_table.py)\<close>

text \<open>
  The comparable form of a diagnosis or of an expected outcome: the dictionary with
  \<^verbatim>\<open>failure_mode\<close> and \<^verbatim>\<open>confidence\<close>.
\<close>

type_synonym outcome = "string \<times> EvidenceStrength"

text \<open>
  \<^verbatim>\<open>class TestCase(BaseModel)\<close>, a registered expectation. \<^verbatim>\<open>inputs\<close> is a dictionary
  read with \<^verbatim>\<open>.get("observations", [])\<close> and \<^verbatim>\<open>.get("sensor_values", {})\<close>, so either
  key may be absent.
\<close>

record TestCase =
  inputs_observations :: "string list option"
  inputs_sensor_values :: "sensor_dict option"
  expected :: "outcome list"

text \<open>An input combination: a dictionary with \<^verbatim>\<open>observations\<close> and \<^verbatim>\<open>sensor_values\<close>.\<close>

record TestInput =
  tc_observations :: "string list"
  tc_sensor_values :: sensor_dict

text \<open>\<^verbatim>\<open>class TruthTableResult(BaseModel)\<close>\<close>

record TruthTableResult =
  inputs :: TestInput
  diagnosed_failure_modes :: "outcome list"
  expected_failure_modes :: "outcome list"
  unexpected_results :: "outcome list"
  missing_results :: "outcome list"
  has_surprise :: bool

text \<open>An entry of \<^verbatim>\<open>self.sensor_readings\<close>, filled by \<^verbatim>\<open>scan_graph\<close>.\<close>

record SensorInfo =
  unit :: "string option"
  thresholds :: "threshold option list"
  operators :: "string option list"

text \<open>
  The \<^verbatim>\<open>diagnose\<close> method of the engine a table is built with: it returns diagnoses or
  raises (the query runs against the store).
\<close>

type_synonym engine = "string list \<Rightarrow> sensor_dict \<Rightarrow> error + DiagnosticResult list"

text \<open>
  \<^verbatim>\<open>class TruthTable\<close>: the engine, the scanned observations (a Python set, here in
  the order \<^verbatim>\<open>list(self.observations)\<close> gives them), the scanned sensors and the
  registry.
\<close>

record TruthTable =
  diagnostic_engine :: engine
  tt_observations :: "string list"
  tt_sensor_readings :: "(string \<times> SensorInfo) list"
  expected_outcomes :: "TestCase list"

text \<open>The engine over a graph snapshot: the query above, which does not raise.\<close>

definition engine_of :: "Graph \<Rightarrow> engine" where
  "engine_of g observations sensor_readings = Inr (diagnose g observations (Some sensor_readings))"

subsection \<open>generate_test_cases\<close>

text \<open>\<^verbatim>\<open>itertools.combinations(xs, r)\<close>: the \<open>r\<close>-element subsequences, in index order.\<close>

fun combinations :: "'a list \<Rightarrow> nat \<Rightarrow> 'a list list" where
  "combinations xs 0 = [[]]"
| "combinations [] (Suc r) = []"
| "combinations (x # xs) (Suc r) = map ((#) x) (combinations xs r) @ combinations xs (Suc r)"

definition observation_combinations :: "string list \<Rightarrow> string list list" where
  "observation_combinations vary_observations =
     [] # concat (map (combinations vary_observations) [1 ..< length vary_observations + 1])"

text \<open>
  \<^verbatim>\<open>threshold - 0.1\<close> and \<^verbatim>\<open>threshold + 0.1\<close> are float operations: their
  results are rounded to a float (\<^verbatim>\<open>0.3 - 0.1\<close> is \<^verbatim>\<open>0.19999999999999998\<close>,
  \<^verbatim>\<open>1e17 + 0.1\<close> is \<^verbatim>\<open>1e17\<close>). The rounding is outside this model, so the two
  operations are parameters of the functions that generate sensor values.
\<close>

record float_ops =
  minus_tenth :: "rat \<Rightarrow> rat"
  plus_tenth :: "rat \<Rightarrow> rat"

text \<open>
  The values around the thresholds of one sensor, then \<^verbatim>\<open>None\<close>. The subtraction
  raises \<^verbatim>\<open>TypeError\<close> when the threshold is \<^verbatim>\<open>None\<close> or a list.
\<close>

fun around :: "float_ops \<Rightarrow> threshold option list \<Rightarrow> error + rat option list" where
  "around fl [] = Inr [None]"
| "around fl (Some (TNum t) # ts) =
     (case around fl ts of
        Inl err \<Rightarrow> Inl err
      | Inr vs \<Rightarrow> Inr (Some (minus_tenth fl t) # Some (plus_tenth fl t) # Some t # vs))"
| "around fl (_ # ts) = Inl TypeError"

definition new_combinations :: "string \<Rightarrow> rat option list \<Rightarrow> sensor_dict list \<Rightarrow> sensor_dict list" where
  "new_combinations sensor_name sensor_test_values sensor_value_combinations =
     concat (map (\<lambda>existing.
                    map (\<lambda>v. case v of None \<Rightarrow> existing
                                     | Some x \<Rightarrow> AList.update sensor_name x existing)
                      sensor_test_values)
               sensor_value_combinations)"

fun vary_sensor_combinations ::
  "float_ops \<Rightarrow> (string \<times> SensorInfo) list \<Rightarrow> string list \<Rightarrow> sensor_dict list
     \<Rightarrow> error + sensor_dict list" where
  "vary_sensor_combinations fl infos [] combos = Inr combos"
| "vary_sensor_combinations fl infos (sensor_name # rest) combos =
     (case map_of infos sensor_name of
        None \<Rightarrow> vary_sensor_combinations fl infos rest combos
      | Some sensor_info \<Rightarrow>
          (case around fl (thresholds sensor_info) of
             Inl err \<Rightarrow> Inl err
           | Inr sensor_test_values \<Rightarrow>
               vary_sensor_combinations fl infos rest
                 (new_combinations sensor_name sensor_test_values combos)))"

definition full_obs :: "(string \<times> bool) list \<Rightarrow> string list \<Rightarrow> string list" where
  "full_obs fixed_observations obs_combo =
     fold (\<lambda>(obs, present) acc. if present \<and> obs \<notin> set acc then acc @ [obs] else acc)
       fixed_observations obs_combo"

definition full_sensors :: "sensor_dict \<Rightarrow> sensor_dict \<Rightarrow> sensor_dict" where
  "full_sensors fixed_sensor_values sensor_combo =
     fold (\<lambda>(sensor, v) acc. AList.update sensor v acc) fixed_sensor_values sensor_combo"

definition or_default :: "'a option \<Rightarrow> 'a \<Rightarrow> 'a" where
  "or_default x d = (case x of None \<Rightarrow> d | Some v \<Rightarrow> v)"

definition generate_test_cases ::
  "float_ops \<Rightarrow> TruthTable \<Rightarrow> string list option \<Rightarrow> (string \<times> bool) list option \<Rightarrow> string list option
     \<Rightarrow> sensor_dict option \<Rightarrow> error + TestInput list" where
  "generate_test_cases fl tt vary_observations fixed_observations vary_sensors
       fixed_sensor_values =
     (let vary_obs0 = or_default vary_observations [];
          fixed_obs = or_default fixed_observations [];
          vary_sens = or_default vary_sensors [];
          fixed_sens = or_default fixed_sensor_values [];
          vary_obs = (if vary_obs0 = [] \<and> fixed_obs = [] then tt_observations tt else vary_obs0)
      in case vary_sensor_combinations fl (tt_sensor_readings tt) vary_sens [[]] of
           Inl err \<Rightarrow> Inl err
         | Inr sensor_value_combinations \<Rightarrow>
             Inr (concat (map (\<lambda>obs_combo.
                                 map (\<lambda>sensor_combo.
                                        \<lparr> tc_observations = full_obs fixed_obs obs_combo,
                                          tc_sensor_values = full_sensors fixed_sens sensor_combo \<rparr>)
                                   sensor_value_combinations)
                            (observation_combinations vary_obs))))"

subsection \<open>run_test_case and run_truth_table\<close>

text \<open>Equality of two Python dictionaries: the same keys with equal values.\<close>

definition dict_eq :: "sensor_dict \<Rightarrow> sensor_dict \<Rightarrow> bool" where
  "dict_eq a b =
     (set (map fst a) = set (map fst b) \<and> list_all (\<lambda>k. map_of a k = map_of b k) (map fst a))"

definition matches :: "TestCase \<Rightarrow> TestInput \<Rightarrow> bool" where
  "matches ex test_case =
     (set (or_default (inputs_observations ex) []) = set (tc_observations test_case)
      \<and> dict_eq (or_default (inputs_sensor_values ex) []) (tc_sensor_values test_case))"


text \<open>
  The loop over \<^verbatim>\<open>self.expected_outcomes\<close>: every matching entry sets the flag and
  overwrites \<^verbatim>\<open>expected_results\<close>.
\<close>

definition find_expected :: "TestCase list \<Rightarrow> TestInput \<Rightarrow> bool \<times> outcome list" where
  "find_expected registry test_case =
     fold (\<lambda>ex (has_registered_expectations, expected_results).
             if matches ex test_case then (True, expected ex)
             else (has_registered_expectations, expected_results))
       registry (False, [])"

definition run_test_case :: "TruthTable \<Rightarrow> TestInput \<Rightarrow> error + TruthTableResult" where
  "run_test_case tt test_case =
     (case diagnostic_engine tt (tc_observations test_case) (tc_sensor_values test_case) of
        Inl err \<Rightarrow> Inl err
      | Inr diagnoses \<Rightarrow>
          (let actual_results = map (\<lambda>d. (failure_mode d, confidence d)) diagnoses;
               found = find_expected (expected_outcomes tt) test_case;
               has_registered_expectations = fst found;
               expected_results = snd found;
               unexpected = (if has_registered_expectations
                             then filter (\<lambda>actual. actual \<notin> set expected_results) actual_results
                             else []);
               missing = (if has_registered_expectations
                          then filter (\<lambda>ex. ex \<notin> set actual_results) expected_results
                          else [])
           in Inr \<lparr> inputs = test_case,
                    diagnosed_failure_modes = actual_results,
                    expected_failure_modes = expected_results,
                    unexpected_results = unexpected,
                    missing_results = missing,
                    has_surprise = (has_registered_expectations
                                    \<and> (length unexpected > 0 \<or> length missing > 0)) \<rparr>))"

text \<open>
  \<^verbatim>\<open>for test_case in test_cases: result = self.run_test_case(test_case)\<close>, with nothing
  around the call: an exception leaves the loop and the method.
\<close>

definition run_truth_table ::
  "float_ops \<Rightarrow> TruthTable \<Rightarrow> string list option \<Rightarrow> (string \<times> bool) list option \<Rightarrow> string list option
     \<Rightarrow> sensor_dict option \<Rightarrow> TestInput list option \<Rightarrow> error + TruthTableResult list" where
  "run_truth_table fl tt vary_observations fixed_observations vary_sensors fixed_sensor_values
       test_cases =
     (case (case test_cases of
              None \<Rightarrow> generate_test_cases fl tt vary_observations fixed_observations vary_sensors
                        fixed_sensor_values
            | Some cs \<Rightarrow> Inr cs) of
        Inl err \<Rightarrow> Inl err
      | Inr cs \<Rightarrow> map_raise (run_test_case tt) cs)"

section \<open>Scenario graphs\<close>

text \<open>
  "Dead Battery" causes "No Music"; the sensor "battery_voltage" is evidence for it,
  \<^verbatim>\<open>when_true=confirms, when_false=rules_out, operator=<, threshold=4.0\<close>.
\<close>

definition battery_edge :: EvidenceLink where
  "battery_edge =
     \<lparr> source_kind = SensorReading, source = ''battery_voltage'', target = ''Dead Battery'',
       when_true_strength = Some CONFIRMS, when_false_strength = Some RULES_OUT,
       operator = Some ''<'', threshold = Some (TNum 4) \<rparr>"

definition battery_graph :: Graph where
  "battery_graph =
     \<lparr> failure_modes = [''Dead Battery''],
       causes = [(''Dead Battery'', ''No Music'')],
       evidence = [battery_edge] \<rparr>"

text \<open>
  Two failure modes that both cause "No Sound": the battery sensor confirms
  "Dead Battery" below 3.5, the observation "Buzz or Hiss" suggests "Speaker Broken".
\<close>

definition sound_graph :: Graph where
  "sound_graph =
     \<lparr> failure_modes = [''Speaker Broken'', ''Dead Battery''],
       causes = [(''Speaker Broken'', ''No Sound''), (''Dead Battery'', ''No Sound'')],
       evidence =
         [\<lparr> source_kind = Observation, source = ''Buzz or Hiss'', target = ''Speaker Broken'',
            when_true_strength = Some SUGGESTS, when_false_strength = Some INCONCLUSIVE,
            operator = None, threshold = None \<rparr>,
          \<lparr> source_kind = SensorReading, source = ''battery_voltage'', target = ''Dead Battery'',
            when_true_strength = Some CONFIRMS, when_false_strength = Some RULES_OUT,
            operator = Some ''<'', threshold = Some (TNum (7 / 2)) \<rparr>] \<rparr>"

text \<open>
  The observation "No Music" confirms "Dead Battery"; a battery voltage that is not
  below 4.0 only suggests against it.
\<close>

definition mild_graph :: Graph where
  "mild_graph =
     \<lparr> failure_modes = [''Dead Battery''],
       causes = [(''Dead Battery'', ''No Music'')],
       evidence =
         [\<lparr> source_kind = Observation, source = ''No Music'', target = ''Dead Battery'',
            when_true_strength = Some CONFIRMS, when_false_strength = Some INCONCLUSIVE,
            operator = None, threshold = None \<rparr>,
          battery_edge\<lparr> when_false_strength := Some SUGGESTS_AGAINST \<rparr>] \<rparr>"

text \<open>The same graph with the operator \<^verbatim>\<open><=\<close> on the sensor relationship.\<close>

definition mild_le_graph :: Graph where
  "mild_le_graph =
     \<lparr> failure_modes = [''Dead Battery''],
       causes = [(''Dead Battery'', ''No Music'')],
       evidence =
         [\<lparr> source_kind = Observation, source = ''No Music'', target = ''Dead Battery'',
            when_true_strength = Some CONFIRMS, when_false_strength = Some INCONCLUSIVE,
            operator = None, threshold = None \<rparr>,
          battery_edge\<lparr> when_false_strength := Some SUGGESTS_AGAINST,
                        operator := Some ''<='' \<rparr>] \<rparr>"

text \<open>
  "Inconclusive Failure" causes "Test Observation", which is evidence for it with the
  strength \<^verbatim>\<open>inconclusive\<close>.
\<close>

definition inconclusive_graph :: Graph where
  "inconclusive_graph =
     \<lparr> failure_modes = [''Inconclusive Failure''],
       causes = [(''Inconclusive Failure'', ''Test Observation'')],
       evidence =
         [\<lparr> source_kind = Observation, source = ''Test Observation'',
            target = ''Inconclusive Failure'',
            when_true_strength = Some INCONCLUSIVE, when_false_strength = Some INCONCLUSIVE,
            operator = None, threshold = None \<rparr>] \<rparr>"

text \<open>The battery graph with the operator \<^verbatim>\<open><=\<close> on its evidence relationship.\<close>

definition le_graph :: Graph where
  "le_graph = battery_graph\<lparr> evidence := [battery_edge\<lparr> operator := Some ''<='' \<rparr>] \<rparr>"

text \<open>The same with \<^verbatim>\<open>!=\<close>, which is not a value of \<^verbatim>\<open>ComparisonOperator\<close>.\<close>

definition ne_graph :: Graph where
  "ne_graph = battery_graph\<lparr> evidence := [battery_edge\<lparr> operator := Some ''!='' \<rparr>] \<rparr>"

text \<open>
  "Dead Battery" causes "No Music" and "Blown Fuse" causes "No Music"; the observation
  "Display On" rules "Dead Battery" out when it is seen, and "Blown Fuse" has no
  evidence relationship.
\<close>

definition display_graph :: Graph where
  "display_graph =
     \<lparr> failure_modes = [''Dead Battery'', ''Blown Fuse''],
       causes = [(''Dead Battery'', ''No Music''), (''Blown Fuse'', ''No Music'')],
       evidence =
         [\<lparr> source_kind = Observation, source = ''Display On'', target = ''Dead Battery'',
            when_true_strength = Some RULES_OUT, when_false_strength = Some INCONCLUSIVE,
            operator = None, threshold = None \<rparr>] \<rparr>"

text \<open>
  Both failure modes cause "No Sound"; the battery sensor is evidence for each of
  them, with different operators and strengths.
\<close>

definition two_edge_graph :: Graph where
  "two_edge_graph =
     \<lparr> failure_modes = [''Dead Battery'', ''Speaker Broken''],
       causes = [(''Dead Battery'', ''No Sound''), (''Speaker Broken'', ''No Sound'')],
       evidence =
         [\<lparr> source_kind = SensorReading, source = ''battery_voltage'', target = ''Dead Battery'',
            when_true_strength = Some CONFIRMS, when_false_strength = Some RULES_OUT,
            operator = Some ''<'', threshold = Some (TNum (7 / 2)) \<rparr>,
          \<lparr> source_kind = SensorReading, source = ''battery_voltage'', target = ''Speaker Broken'',
            when_true_strength = Some SUGGESTS, when_false_strength = Some INCONCLUSIVE,
            operator = Some ''>'', threshold = Some (TNum (7 / 2)) \<rparr>] \<rparr>"

text \<open>
  Both failure modes cause "No Sound"; the observation "Dim Display" suggests each of
  them, and "Buzz or Hiss" confirms "Speaker Broken".
\<close>

definition dim_edge :: EvidenceLink where
  "dim_edge =
     \<lparr> source_kind = Observation, source = ''Dim Display'', target = ''Dead Battery'',
       when_true_strength = Some SUGGESTS, when_false_strength = Some INCONCLUSIVE,
       operator = None, threshold = None \<rparr>"

definition shared_graph :: Graph where
  "shared_graph =
     \<lparr> failure_modes = [''Dead Battery'', ''Speaker Broken''],
       causes = [(''Dead Battery'', ''No Sound''), (''Speaker Broken'', ''No Sound'')],
       evidence =
         [\<lparr> source_kind = Observation, source = ''Buzz or Hiss'', target = ''Speaker Broken'',
            when_true_strength = Some CONFIRMS, when_false_strength = Some INCONCLUSIVE,
            operator = None, threshold = None \<rparr>,
          dim_edge,
          dim_edge\<lparr> target := ''Speaker Broken'' \<rparr>] \<rparr>"

text \<open>
  Float operations for the scenarios below, carried out without rounding. No scenario
  varies a sensor, so neither operation is applied in them.
\<close>

definition unrounded :: float_ops where
  "unrounded = \<lparr> minus_tenth = (\<lambda>t. t - 1 / 10), plus_tenth = (\<lambda>t. t + 1 / 10) \<rparr>"

text \<open>The input of the battery scenario, and a table over the battery graph.\<close>

definition low_battery_case :: TestInput where
  "low_battery_case =
     \<lparr> tc_observations = [''No Music''], tc_sensor_values = [(''battery_voltage'', 7 / 2)] \<rparr>"

definition silent_case :: TestInput where
  "silent_case = \<lparr> tc_observations = [], tc_sensor_values = [] \<rparr>"

definition expects_nothing :: TestCase where
  "expects_nothing =
     \<lparr> inputs_observations = Some [''No Music''],
       inputs_sensor_values = Some [(''battery_voltage'', 7 / 2)],
       expected = [] \<rparr>"

definition expects_dead_battery :: TestCase where
  "expects_dead_battery = expects_nothing\<lparr> expected := [(''Dead Battery'', CONFIRMS)] \<rparr>"

definition battery_table :: TruthTable where
  "battery_table =
     \<lparr> diagnostic_engine = engine_of battery_graph,
       tt_observations = [''No Music''],
       tt_sensor_readings =
         [(''battery_voltage'',
           \<lparr> unit = Some ''V'', thresholds = [Some (TNum 4)], operators = [Some ''<''] \<rparr>)],
       expected_outcomes = [expects_nothing, expects_dead_battery] \<rparr>"


text \<open>The case with "No Music" observed and no sensor value.\<close>

definition music_case :: TestInput where
  "music_case = \<lparr> tc_observations = [''No Music''], tc_sensor_values = [] \<rparr>"

text \<open>An engine whose store fails on the query for an empty observation list.\<close>

definition flaky_engine :: engine where
  "flaky_engine observations sensor_readings =
     (if observations = [] then Inl QueryError
      else engine_of battery_graph observations sensor_readings)"

definition flaky_table :: TruthTable where
  "flaky_table = battery_table\<lparr> diagnostic_engine := flaky_engine \<rparr>"

text \<open>The record of "Dead Battery" on \<open>mild_graph\<close> when "No Music" is observed at 12.0 volts.\<close>

definition mild_result :: DiagnosticResult where
  "mild_result = \<lparr> failure_mode = ''Dead Battery'', confidence = INCONCLUSIVE,
         supporting_evidence = [''No Music'', ''battery_voltage''],
         contradicting_evidence = [''battery_voltage''], explanation = None \<rparr>"

section \<open>Facts about the diagnosis query\<close>

lemma set_collect: "set (collect xs) = {x. Some x \<in> set xs}"
  by (induction xs rule: collect.induct) auto

lemma set_diagnose:
  "set (diagnose g observations (Some sr)) =
     {r \<in> set (grouped g observations sr). confidence r \<noteq> RULES_OUT}"
  by (simp add: diagnose_def)

lemma in_grouped:
  "r \<in> set (grouped g observations sr) \<longleftrightarrow>
     (\<exists>fm \<in> set (candidates g observations).
        all_evidence g observations sr fm \<noteq> [] \<and>
        r = result_of sr fm (all_evidence g observations sr fm))"
  by (auto simp: grouped_def)

lemma result_of_sel:
  "failure_mode (result_of sr fm rows) = fm"
  "confidence (result_of sr fm rows) = overall_confidence sr rows"
  by (simp_all add: result_of_def)

lemma in_diagnose:
  "r \<in> set (diagnose g observations (Some sr)) \<longleftrightarrow>
     (failure_mode r \<in> set (candidates g observations) \<and>
      all_evidence g observations sr (failure_mode r) \<noteq> [] \<and>
      r = result_of sr (failure_mode r) (all_evidence g observations sr (failure_mode r)) \<and>
      overall_confidence sr (all_evidence g observations sr (failure_mode r)) \<noteq> RULES_OUT)"
proof
  assume "r \<in> set (diagnose g observations (Some sr))"
  then have g: "r \<in> set (grouped g observations sr)" and c: "confidence r \<noteq> RULES_OUT"
    by (simp_all add: set_diagnose)
  from g obtain fm where fm: "fm \<in> set (candidates g observations)"
    "all_evidence g observations sr fm \<noteq> []"
    "r = result_of sr fm (all_evidence g observations sr fm)"
    unfolding in_grouped by blast
  from fm(3) have "failure_mode r = fm" by (simp add: result_of_sel)
  with fm c show "failure_mode r \<in> set (candidates g observations) \<and>
      all_evidence g observations sr (failure_mode r) \<noteq> [] \<and>
      r = result_of sr (failure_mode r) (all_evidence g observations sr (failure_mode r)) \<and>
      overall_confidence sr (all_evidence g observations sr (failure_mode r)) \<noteq> RULES_OUT"
    by (simp add: result_of_sel)
next
  assume a: "failure_mode r \<in> set (candidates g observations) \<and>
      all_evidence g observations sr (failure_mode r) \<noteq> [] \<and>
      r = result_of sr (failure_mode r) (all_evidence g observations sr (failure_mode r)) \<and>
      overall_confidence sr (all_evidence g observations sr (failure_mode r)) \<noteq> RULES_OUT"
  then have "r \<in> set (grouped g observations sr)"
    unfolding in_grouped by blast
  moreover from a have "confidence r \<noteq> RULES_OUT"
    by (metis result_of_sel(2))
  ultimately show "r \<in> set (diagnose g observations (Some sr))"
    by (simp add: set_diagnose)
qed

lemma name_in_diagnose:
  "fm \<in> set (map failure_mode (diagnose g observations (Some sr))) \<longleftrightarrow>
     (fm \<in> set (candidates g observations) \<and>
      all_evidence g observations sr fm \<noteq> [] \<and>
      overall_confidence sr (all_evidence g observations sr fm) \<noteq> RULES_OUT)"
proof
  assume "fm \<in> set (map failure_mode (diagnose g observations (Some sr)))"
  then obtain r where "r \<in> set (diagnose g observations (Some sr))" "failure_mode r = fm"
    by auto
  then show "fm \<in> set (candidates g observations) \<and>
      all_evidence g observations sr fm \<noteq> [] \<and>
      overall_confidence sr (all_evidence g observations sr fm) \<noteq> RULES_OUT"
    by (auto simp: in_diagnose)
next
  assume a: "fm \<in> set (candidates g observations) \<and>
      all_evidence g observations sr fm \<noteq> [] \<and>
      overall_confidence sr (all_evidence g observations sr fm) \<noteq> RULES_OUT"
  let ?r = "result_of sr fm (all_evidence g observations sr fm)"
  have "?r \<in> set (diagnose g observations (Some sr))"
    unfolding in_diagnose result_of_sel using a by blast
  then have "failure_mode ?r \<in> failure_mode ` set (diagnose g observations (Some sr))"
    by (rule imageI)
  then show "fm \<in> set (map failure_mode (diagnose g observations (Some sr)))"
    by (simp add: result_of_sel)
qed

lemma reported_iff:
  "reported (diagnose g observations (Some sr)) fm c \<longleftrightarrow>
     (fm \<in> set (candidates g observations) \<and>
      all_evidence g observations sr fm \<noteq> [] \<and>
      overall_confidence sr (all_evidence g observations sr fm) \<noteq> RULES_OUT \<and>
      overall_confidence sr (all_evidence g observations sr fm) = c)"
proof -
  have all: "list_all (\<lambda>r. confidence r = c)
        (filter (\<lambda>r. failure_mode r = fm) (diagnose g observations (Some sr))) \<longleftrightarrow>
      (\<forall>r \<in> set (diagnose g observations (Some sr)). failure_mode r = fm \<longrightarrow> confidence r = c)"
    by (auto simp: list_all_iff)
  show ?thesis
  proof (cases "fm \<in> set (map failure_mode (diagnose g observations (Some sr)))")
    case False
    then show ?thesis
      unfolding reported_def using name_in_diagnose[of fm g observations sr] by blast
  next
    case True
    then have n: "fm \<in> set (candidates g observations) \<and>
      all_evidence g observations sr fm \<noteq> [] \<and>
      overall_confidence sr (all_evidence g observations sr fm) \<noteq> RULES_OUT"
      using name_in_diagnose[of fm g observations sr] by blast
    let ?r = "result_of sr fm (all_evidence g observations sr fm)"
    have mem: "?r \<in> set (diagnose g observations (Some sr))"
      unfolding in_diagnose result_of_sel using n by blast
    have "(\<forall>r \<in> set (diagnose g observations (Some sr)). failure_mode r = fm \<longrightarrow> confidence r = c)
        \<longleftrightarrow> overall_confidence sr (all_evidence g observations sr fm) = c"
    proof
      assume "\<forall>r \<in> set (diagnose g observations (Some sr)). failure_mode r = fm \<longrightarrow> confidence r = c"
      with mem have "failure_mode ?r = fm \<longrightarrow> confidence ?r = c" by blast
      then show "overall_confidence sr (all_evidence g observations sr fm) = c"
        by (simp add: result_of_sel)
    next
      assume c: "overall_confidence sr (all_evidence g observations sr fm) = c"
      show "\<forall>r \<in> set (diagnose g observations (Some sr)). failure_mode r = fm \<longrightarrow> confidence r = c"
      proof (intro ballI impI)
        fix r assume "r \<in> set (diagnose g observations (Some sr))" "failure_mode r = fm"
        then have "r = ?r" by (simp add: in_diagnose)
        then show "confidence r = c" using c by (simp add: result_of_sel)
      qed
    qed
    with True n all show ?thesis
      unfolding reported_def by simp
  qed
qed

lemma ruled_out_iff:
  "is_ruled_out sr rows \<longleftrightarrow> (\<exists>e \<in> set rows. when_false_strength_value sr e = Some RULES_OUT)"
  by (force simp: is_ruled_out_def false_strengths_def set_collect image_iff)

lemma false_value_flag:
  "when_false_strength_value sr e = Some s \<Longrightarrow> contradicting_flag sr e"
  by (auto simp: when_false_strength_value_def contradicting_flag_def split: if_splits)

lemma clean_confidence:
  assumes "filter (contradicting_flag sr) rows = []"
  shows "overall_confidence sr rows =
     (if CONFIRMS \<in> set (strengths sr rows) then CONFIRMS
      else if SUGGESTS \<in> set (strengths sr rows) then SUGGESTS
      else if SUGGESTS_AGAINST \<in> set (strengths sr rows) then SUGGESTS_AGAINST
      else if RULES_OUT \<in> set (strengths sr rows) then RULES_OUT
      else INCONCLUSIVE)"
proof -
  have "\<not> is_ruled_out sr rows"
  proof
    assume "is_ruled_out sr rows"
    then obtain e where "e \<in> set rows" "contradicting_flag sr e"
      unfolding ruled_out_iff using false_value_flag by blast
    then have "e \<in> set (filter (contradicting_flag sr) rows)" by simp
    with assms show False by simp
  qed
  moreover have "\<And>s. (length (filter (\<lambda>x. x = s) (strengths sr rows)) > 0) = (s \<in> set (strengths sr rows))"
    by (auto simp: filter_empty_conv)
  ultimately show ?thesis
    using assms by (simp add: overall_confidence_def)
qed


section \<open>The query against the aggregator of the specification\<close>

lemma in_all_evidence:
  "e \<in> set (all_evidence g observations sr fm) \<longleftrightarrow>
     (e \<in> set (evidence g) \<and> target e = fm \<and>
      (if source_kind e = Observation then source e \<in> set observations
       else source e \<in> set (map fst sr)))"
  by (cases "source_kind e") (auto simp: all_evidence_def observation_evidence_def sensor_evidence_def)

lemma in_spec_contributions:
  "c \<in> set (spec_contributions g observations sr fm) \<longleftrightarrow>
     (\<exists>e \<in> set (evidence g). target e = fm \<and> spec_contribution observations sr e = Some c)"
  by (force simp: spec_contributions_def set_collect image_iff)

lemma spec_contribution_row:
  assumes "spec_contribution observations sr e = Some c"
    and "e \<in> set (evidence g)" and "target e = fm"
  shows "e \<in> set (all_evidence g observations sr fm)"
proof (cases "source_kind e = Observation")
  case True
  with assms show ?thesis
    by (simp add: in_all_evidence spec_contribution_def split: if_splits)
next
  case False
  with assms(1) obtain v where "map_of sr (source e) = Some v"
    by (auto simp: spec_contribution_def spec_sensor_holds_def split: option.splits)
  then have "source e \<in> set (map fst sr)"
    by (metis map_of_eq_None_iff option.distinct(1) set_map)
  with False assms(2,3) show ?thesis
    by (simp add: in_all_evidence)
qed

lemma spec_contribution_name:
  "spec_contribution observations sr e = Some c \<Longrightarrow> fst c = source e"
  by (auto simp: spec_contribution_def split: if_splits option.splits)

lemma taken_and:
  "taken (cy_and (op_is ope lit) c) = (ope = Some lit \<and> c = Some True)"
  by (cases ope; cases c) (auto simp: taken_def cy_and_def op_is_def)

lemma cy_lt_True:
  "cy_lt r t = Some True \<longleftrightarrow> (\<exists>v x. r = Some v \<and> t = Some (TNum x) \<and> v < x)"
  by (cases "(r, t)" rule: cy_lt.cases) auto

lemma cy_gt_True:
  "cy_gt r t = Some True \<longleftrightarrow> (\<exists>v x. r = Some v \<and> t = Some (TNum x) \<and> v > x)"
  by (cases "(r, t)" rule: cy_gt.cases) auto

lemma cy_le_True:
  "cy_le r t = Some True \<longleftrightarrow> (\<exists>v x. r = Some v \<and> t = Some (TNum x) \<and> v \<le> x)"
  by (cases "(r, t)" rule: cy_le.cases) auto

lemma cy_ge_True:
  "cy_ge r t = Some True \<longleftrightarrow> (\<exists>v x. r = Some v \<and> t = Some (TNum x) \<and> v \<ge> x)"
  by (cases "(r, t)" rule: cy_ge.cases) auto

lemma cy_eq_True:
  "cy_eq r t = Some True \<longleftrightarrow> (\<exists>v x. r = Some v \<and> t = Some (TNum x) \<and> v = x)"
  by (cases "(r, t)" rule: cy_eq.cases) auto

lemma cy_ne_True:
  "cy_ne r t = Some True \<longleftrightarrow>
     (\<exists>v. r = Some v \<and> ((\<exists>x. t = Some (TNum x) \<and> v \<noteq> x) \<or> (\<exists>xs. t = Some (TList xs))))"
  by (cases "(r, t)" rule: cy_ne.cases) auto

lemmas query_conditions =
  taken_and cy_lt_True cy_gt_True cy_le_True cy_ge_True cy_eq_True cy_ne_True

text \<open>A row the query flags is a contradicting contribution of the specification.\<close>

lemma flag_spec_holds:
  assumes "contradicting_flag sr e"
  shows "spec_sensor_holds sr e = Some False"
  using assms
  by (auto simp: contradicting_flag_def query_conditions reading_def
      spec_sensor_holds_def spec_operator_def)

lemma flag_spec_contribution:
  assumes "contradicting_flag sr e"
  shows "spec_contribution observations sr e
       = Some (source e, when_false_strength e, Contradicting)"
proof -
  from assms have "source_kind e = SensorReading"
    by (simp add: contradicting_flag_def)
  with flag_spec_holds [OF assms] show ?thesis
    by (simp add: spec_contribution_def)
qed

lemma no_spec_contradicting:
  assumes "spec_contradicting g observations sr fm = []"
  shows "filter (contradicting_flag sr) (all_evidence g observations sr fm) = []"
proof (rule ccontr)
  assume "filter (contradicting_flag sr) (all_evidence g observations sr fm) \<noteq> []"
  then obtain e where e: "e \<in> set (all_evidence g observations sr fm)" "contradicting_flag sr e"
    by (auto simp: filter_empty_conv)
  from e(1) have "e \<in> set (evidence g)" "target e = fm"
    by (simp_all add: in_all_evidence)
  with flag_spec_contribution [OF e(2)]
  have "(source e, when_false_strength e, Contradicting)
      \<in> set (spec_contributions g observations sr fm)"
    unfolding in_spec_contributions by blast
  then have "(source e, when_false_strength e)
      \<in> set (spec_contradicting g observations sr fm)"
    by (force simp: spec_contradicting_def)
  with assms show False by simp
qed

text \<open>
  A sensor row whose operator has a branch in the query: the query takes the true
  branch, or flags the row, exactly when the specification has the comparison true, or
  false.
\<close>

lemma evaluated_spec_holds:
  assumes "source_kind e = SensorReading" and "\<not> missed_operator e"
  shows "spec_sensor_holds sr e = Some True \<longleftrightarrow>
           (taken (cy_and (op_is (operator e) ''<'') (cy_lt (reading sr e) (threshold e)))
            \<or> taken (cy_and (op_is (operator e) ''>'') (cy_gt (reading sr e) (threshold e)))
            \<or> taken (cy_and (op_is (operator e) ''='') (cy_eq (reading sr e) (threshold e))))"
    and "spec_sensor_holds sr e = Some False \<longleftrightarrow> contradicting_flag sr e"
  using assms
  by (auto simp: contradicting_flag_def query_conditions reading_def missed_operator_def
      spec_sensor_holds_def spec_operator_def split: option.splits threshold.splits if_splits)

lemma evaluated_effective_strength:
  assumes "source_kind e = SensorReading" and "\<not> missed_operator e"
  shows "effective_strength sr e
       = (if spec_sensor_holds sr e = Some True then when_true_strength e else None)"
  using assms(1) evaluated_spec_holds(1) [OF assms, of sr]
  by (simp add: effective_strength_def)

lemma evaluated_false_strength:
  assumes "source_kind e = SensorReading" and "\<not> missed_operator e"
  shows "when_false_strength_value sr e
       = (if spec_sensor_holds sr e = Some False then when_false_strength e else None)"
proof -
  have "when_false_strength_value sr e
      = (if contradicting_flag sr e then when_false_strength e else None)"
    using assms(1) by (auto simp: when_false_strength_value_def contradicting_flag_def)
  then show ?thesis
    by (simp add: evaluated_spec_holds(2) [OF assms])
qed


lemma sensor_row_evaluated:
  assumes "\<not> list_ex missed_operator (sensor_evidence g sr fm)"
    and "e \<in> set (all_evidence g observations sr fm)" and "source_kind e \<noteq> Observation"
  shows "source_kind e = SensorReading" and "\<not> missed_operator e"
proof -
  show k: "source_kind e = SensorReading"
    using assms(3) by (cases "source_kind e") simp_all
  from assms(2,3) have "e \<in> set (sensor_evidence g sr fm)"
    by (auto simp: all_evidence_def observation_evidence_def)
  with assms(1) show "\<not> missed_operator e"
    by (auto simp: list_ex_iff)
qed

lemma spec_supporting_strengths:
  assumes "\<not> list_ex missed_operator (sensor_evidence g sr fm)"
  shows "Some s \<in> set (map snd (spec_supporting g observations sr fm))
     \<longleftrightarrow> s \<in> set (strengths sr (all_evidence g observations sr fm))"
proof
  assume "Some s \<in> set (map snd (spec_supporting g observations sr fm))"
  then obtain n where "(n, Some s, Supporting) \<in> set (spec_contributions g observations sr fm)"
    by (auto simp: spec_supporting_def)
  then obtain e where e: "e \<in> set (evidence g)" "target e = fm"
    and c: "spec_contribution observations sr e = Some (n, Some s, Supporting)"
    unfolding in_spec_contributions by blast
  have row: "e \<in> set (all_evidence g observations sr fm)"
    using c e by (rule spec_contribution_row)
  have "effective_strength sr e = Some s"
  proof (cases "source_kind e = Observation")
    case True
    with c show ?thesis
      by (simp add: spec_contribution_def effective_strength_def split: if_splits)
  next
    case False
    note ev = sensor_row_evaluated [OF assms row False]
    from c False have "spec_sensor_holds sr e = Some True" "when_true_strength e = Some s"
      by (auto simp: spec_contribution_def split: option.splits if_splits)
    then show ?thesis
      by (simp add: evaluated_effective_strength [OF ev])
  qed
  with row have "Some s \<in> effective_strength sr ` set (all_evidence g observations sr fm)"
    by (metis imageI)
  then show "s \<in> set (strengths sr (all_evidence g observations sr fm))"
    by (simp add: strengths_def set_collect)
next
  assume "s \<in> set (strengths sr (all_evidence g observations sr fm))"
  then obtain e where row: "e \<in> set (all_evidence g observations sr fm)"
    and s: "effective_strength sr e = Some s"
    by (auto simp: strengths_def set_collect)
  from row have e: "e \<in> set (evidence g)" "target e = fm"
    by (simp_all add: in_all_evidence)
  have "spec_contribution observations sr e = Some (source e, Some s, Supporting)"
  proof (cases "source_kind e = Observation")
    case True
    with row s show ?thesis
      by (simp add: in_all_evidence spec_contribution_def effective_strength_def)
  next
    case False
    note ev = sensor_row_evaluated [OF assms row False]
    from s have "spec_sensor_holds sr e = Some True" "when_true_strength e = Some s"
      by (simp_all add: evaluated_effective_strength [OF ev] split: if_splits)
    with False show ?thesis
      by (simp add: spec_contribution_def)
  qed
  with e have "(source e, Some s, Supporting) \<in> set (spec_contributions g observations sr fm)"
    unfolding in_spec_contributions by blast
  then have "(source e, Some s) \<in> set (spec_supporting g observations sr fm)"
    by (force simp: spec_supporting_def)
  then have "snd (source e, Some s) \<in> snd ` set (spec_supporting g observations sr fm)"
    by (rule imageI)
  then show "Some s \<in> set (map snd (spec_supporting g observations sr fm))"
    by simp
qed

lemma spec_contradicting_row:
  assumes "\<not> list_ex missed_operator (sensor_evidence g sr fm)"
    and "(n, s) \<in> set (spec_contradicting g observations sr fm)"
  shows "\<exists>e \<in> set (all_evidence g observations sr fm).
           contradicting_flag sr e \<and> when_false_strength_value sr e = s"
proof -
  from assms(2) have "(n, s, Contradicting) \<in> set (spec_contributions g observations sr fm)"
    by (auto simp: spec_contradicting_def)
  then obtain e where e: "e \<in> set (evidence g)" "target e = fm"
    and c: "spec_contribution observations sr e = Some (n, s, Contradicting)"
    unfolding in_spec_contributions by blast
  have row: "e \<in> set (all_evidence g observations sr fm)"
    using c e by (rule spec_contribution_row)
  from c have k: "source_kind e \<noteq> Observation"
    by (auto simp: spec_contribution_def split: if_splits)
  note ev = sensor_row_evaluated [OF assms(1) row k]
  from c k have h: "spec_sensor_holds sr e = Some False" and w: "when_false_strength e = s"
    by (auto simp: spec_contribution_def split: option.splits if_splits)
  from h have "contradicting_flag sr e"
    by (simp add: evaluated_spec_holds(2) [OF ev])
  moreover from h w have "when_false_strength_value sr e = s"
    by (simp add: evaluated_false_strength [OF ev])
  ultimately show ?thesis using row by blast
qed

section \<open>Rule-out and contradiction\<close>

text \<open>
  Where no active sensor relationship of a failure mode carries an operator the query
  misses, a contradicting \<^verbatim>\<open>rules_out\<close> contribution removes the failure mode from
  the output, and any contradicting contribution makes a returned record
  \<^verbatim>\<open>inconclusive\<close>.
\<close>

lemma rule_out_where_evaluated:
  assumes "\<not> list_ex missed_operator (sensor_evidence g sr F)"
    and "(n, Some RULES_OUT) \<in> set (spec_contradicting g observations sr F)"
  shows "F \<notin> set (map failure_mode (diagnose g observations (Some sr)))"
proof -
  from spec_contradicting_row [OF assms]
  have "is_ruled_out sr (all_evidence g observations sr F)"
    unfolding ruled_out_iff by blast
  then have "overall_confidence sr (all_evidence g observations sr F) = RULES_OUT"
    by (simp add: overall_confidence_def)
  then show ?thesis
    by (simp only: name_in_diagnose) simp
qed

lemma inconclusive_where_evaluated:
  assumes "r \<in> set (diagnose g observations (Some sr))"
    and "\<not> list_ex missed_operator (sensor_evidence g sr (failure_mode r))"
    and "spec_contradicting g observations sr (failure_mode r) \<noteq> []"
  shows "confidence r = INCONCLUSIVE"
proof -
  let ?rows = "all_evidence g observations sr (failure_mode r)"
  from assms(1) have r: "r = result_of sr (failure_mode r) ?rows"
    and nr: "overall_confidence sr ?rows \<noteq> RULES_OUT"
    by (simp_all add: in_diagnose)
  from assms(3) obtain n s where "(n, s) \<in> set (spec_contradicting g observations sr (failure_mode r))"
    by (cases "spec_contradicting g observations sr (failure_mode r)") auto
  from spec_contradicting_row [OF assms(2) this]
  have "filter (contradicting_flag sr) ?rows \<noteq> []"
    by (auto simp: filter_empty_conv)
  then have "length (filter (contradicting_flag sr) ?rows) > 0" by simp
  with nr have "overall_confidence sr ?rows = INCONCLUSIVE"
    by (simp add: overall_confidence_def split: if_splits)
  with r show ?thesis
    by (metis result_of_sel(2))
qed

text \<open>
  C1 (rule-out dominance). The claim: if any contradicting contribution to a failure
  mode has the strength \<^verbatim>\<open>rules_out\<close>, the failure mode is absent from the list
  \<open>diagnose\<close> returns. The query breaks it for the operator \<^verbatim>\<open><=\<close>: at 12.0 volts
  against the threshold 4.0 the comparison is false and the relationship is a
  contradicting \<^verbatim>\<open>rules_out\<close> contribution, and "Dead Battery" is returned, as
  \<^verbatim>\<open>inconclusive\<close>.
\<close>

theorem rule_out_missed_for_le:
  "spec_contributions le_graph [''No Music''] [(''battery_voltage'', 12)] ''Dead Battery''
     = [(''battery_voltage'', Some RULES_OUT, Contradicting)]
   \<and> diagnose le_graph [''No Music''] (Some [(''battery_voltage'', 12)]) =
     [\<lparr> failure_mode = ''Dead Battery'', confidence = INCONCLUSIVE,
        supporting_evidence = [''battery_voltage''], contradicting_evidence = [],
        explanation = None \<rparr>]"
  by code_simp

text \<open>
  C2 (contradiction forces inconclusive). The claim: a returned failure mode with at
  least one contradicting contribution is reported \<^verbatim>\<open>inconclusive\<close>, also when it
  has a supporting \<^verbatim>\<open>confirms\<close> contribution. The query breaks it for the operator
  \<^verbatim>\<open><=\<close>: with "No Music" confirming and the false comparison contributing
  \<^verbatim>\<open>suggests_against\<close> as contradicting, "Dead Battery" is reported \<^verbatim>\<open>confirms\<close>.
\<close>

theorem contradiction_missed_for_le:
  "spec_contributions mild_le_graph [''No Music''] [(''battery_voltage'', 12)] ''Dead Battery''
     = [(''No Music'', Some CONFIRMS, Supporting),
        (''battery_voltage'', Some SUGGESTS_AGAINST, Contradicting)]
   \<and> diagnose mild_le_graph [''No Music''] (Some [(''battery_voltage'', 12)]) =
     [\<lparr> failure_mode = ''Dead Battery'', confidence = CONFIRMS,
        supporting_evidence = [''No Music'', ''battery_voltage''],
        contradicting_evidence = [], explanation = None \<rparr>]"
  by code_simp

section \<open>Precedence of supporting strengths\<close>

text \<open>
  C3 (precedence order), as amended. For every candidate failure mode \<open>F\<close> that has
  no contradicting contribution and no active sensor relationship with one of the
  operators \<^verbatim>\<open><=\<close>, \<^verbatim>\<open>>=\<close>, \<^verbatim>\<open>in\<close>, \<open>diagnose\<close> reports the first strength present
  among the supporting contributions of \<open>F\<close>, in the order \<^verbatim>\<open>confirms\<close>,
  \<^verbatim>\<open>suggests\<close>, \<^verbatim>\<open>suggests_against\<close>. When none of the three is present: with a
  supporting \<^verbatim>\<open>rules_out\<close> contribution \<open>F\<close> is dropped from the output; with none
  and at least one active evidence relationship \<open>F\<close> is reported \<^verbatim>\<open>inconclusive\<close>;
  with no active evidence relationship at all \<open>F\<close> is absent from the output.
\<close>

theorem precedence_order:
  assumes "F \<in> set (candidates g observations)"
    and "\<not> list_ex missed_operator (sensor_evidence g sr F)"
    and "spec_contradicting g observations sr F = []"
  shows
    "(Some CONFIRMS \<in> set (map snd (spec_supporting g observations sr F))
        \<longrightarrow> reported (diagnose g observations (Some sr)) F CONFIRMS)
     \<and> (Some CONFIRMS \<notin> set (map snd (spec_supporting g observations sr F))
        \<and> Some SUGGESTS \<in> set (map snd (spec_supporting g observations sr F))
        \<longrightarrow> reported (diagnose g observations (Some sr)) F SUGGESTS)
     \<and> (Some CONFIRMS \<notin> set (map snd (spec_supporting g observations sr F))
        \<and> Some SUGGESTS \<notin> set (map snd (spec_supporting g observations sr F))
        \<and> Some SUGGESTS_AGAINST \<in> set (map snd (spec_supporting g observations sr F))
        \<longrightarrow> reported (diagnose g observations (Some sr)) F SUGGESTS_AGAINST)
     \<and> (Some CONFIRMS \<notin> set (map snd (spec_supporting g observations sr F))
        \<and> Some SUGGESTS \<notin> set (map snd (spec_supporting g observations sr F))
        \<and> Some SUGGESTS_AGAINST \<notin> set (map snd (spec_supporting g observations sr F))
        \<and> Some RULES_OUT \<in> set (map snd (spec_supporting g observations sr F))
        \<longrightarrow> F \<notin> set (map failure_mode (diagnose g observations (Some sr))))
     \<and> (Some CONFIRMS \<notin> set (map snd (spec_supporting g observations sr F))
        \<and> Some SUGGESTS \<notin> set (map snd (spec_supporting g observations sr F))
        \<and> Some SUGGESTS_AGAINST \<notin> set (map snd (spec_supporting g observations sr F))
        \<and> Some RULES_OUT \<notin> set (map snd (spec_supporting g observations sr F))
        \<and> all_evidence g observations sr F \<noteq> []
        \<longrightarrow> reported (diagnose g observations (Some sr)) F INCONCLUSIVE)
     \<and> (all_evidence g observations sr F = []
        \<longrightarrow> F \<notin> set (map failure_mode (diagnose g observations (Some sr))))"
proof -
  let ?rows = "all_evidence g observations sr F"
  let ?S = "set (strengths sr ?rows)"
  note S = spec_supporting_strengths [OF assms(2), of _ observations]
  have clean: "filter (contradicting_flag sr) ?rows = []"
    using assms(3) by (rule no_spec_contradicting)
  note conf = clean_confidence [OF clean]
  have ne: "\<And>s. s \<in> ?S \<Longrightarrow> ?rows \<noteq> []"
    by (auto simp: strengths_def)
  have c1: "CONFIRMS \<in> ?S \<Longrightarrow> reported (diagnose g observations (Some sr)) F CONFIRMS"
    unfolding reported_iff using assms(1) conf ne [of CONFIRMS] by auto
  have c2: "CONFIRMS \<notin> ?S \<Longrightarrow> SUGGESTS \<in> ?S
      \<Longrightarrow> reported (diagnose g observations (Some sr)) F SUGGESTS"
    unfolding reported_iff using assms(1) conf ne [of SUGGESTS] by auto
  have c3: "CONFIRMS \<notin> ?S \<Longrightarrow> SUGGESTS \<notin> ?S \<Longrightarrow> SUGGESTS_AGAINST \<in> ?S
      \<Longrightarrow> reported (diagnose g observations (Some sr)) F SUGGESTS_AGAINST"
    unfolding reported_iff using assms(1) conf ne [of SUGGESTS_AGAINST] by auto
  have c4: "CONFIRMS \<notin> ?S \<Longrightarrow> SUGGESTS \<notin> ?S \<Longrightarrow> SUGGESTS_AGAINST \<notin> ?S \<Longrightarrow> RULES_OUT \<in> ?S
      \<Longrightarrow> F \<notin> set (map failure_mode (diagnose g observations (Some sr)))"
    unfolding name_in_diagnose using conf by auto
  have c5: "CONFIRMS \<notin> ?S \<Longrightarrow> SUGGESTS \<notin> ?S \<Longrightarrow> SUGGESTS_AGAINST \<notin> ?S \<Longrightarrow> RULES_OUT \<notin> ?S
      \<Longrightarrow> ?rows \<noteq> [] \<Longrightarrow> reported (diagnose g observations (Some sr)) F INCONCLUSIVE"
    unfolding reported_iff using assms(1) conf by auto
  have c6: "?rows = [] \<Longrightarrow> F \<notin> set (map failure_mode (diagnose g observations (Some sr)))"
    unfolding name_in_diagnose by blast
  show ?thesis
    unfolding S using c1 c2 c3 c4 c5 c6 by blast
qed


theorem precedence_order_witness:
  "''Dead Battery'' \<in> set (candidates battery_graph [''No Music''])
   \<and> \<not> list_ex missed_operator
         (sensor_evidence battery_graph [(''battery_voltage'', 7 / 2)] ''Dead Battery'')
   \<and> spec_contradicting battery_graph [''No Music'']
        [(''battery_voltage'', 7 / 2)] ''Dead Battery'' = []
   \<and> map snd (spec_supporting battery_graph [''No Music'']
        [(''battery_voltage'', 7 / 2)] ''Dead Battery'') = [Some CONFIRMS]
   \<and> reported (diagnose battery_graph [''No Music''] (Some [(''battery_voltage'', 7 / 2)]))
        ''Dead Battery'' CONFIRMS
   \<and> ''Speaker Broken'' \<in> set (candidates sound_graph [''No Sound'', ''Buzz or Hiss''])
   \<and> \<not> list_ex missed_operator
         (sensor_evidence sound_graph [(''battery_voltage'', 3)] ''Speaker Broken'')
   \<and> spec_contradicting sound_graph [''No Sound'', ''Buzz or Hiss'']
        [(''battery_voltage'', 3)] ''Speaker Broken'' = []
   \<and> map snd (spec_supporting sound_graph [''No Sound'', ''Buzz or Hiss'']
        [(''battery_voltage'', 3)] ''Speaker Broken'') = [Some SUGGESTS]
   \<and> reported (diagnose sound_graph [''No Sound'', ''Buzz or Hiss'']
        (Some [(''battery_voltage'', 3)])) ''Speaker Broken'' SUGGESTS
   \<and> ''Inconclusive Failure'' \<in> set (candidates inconclusive_graph [''Test Observation''])
   \<and> \<not> list_ex missed_operator (sensor_evidence inconclusive_graph [] ''Inconclusive Failure'')
   \<and> spec_contradicting inconclusive_graph [''Test Observation''] []
        ''Inconclusive Failure'' = []
   \<and> map snd (spec_supporting inconclusive_graph [''Test Observation''] []
        ''Inconclusive Failure'') = [Some INCONCLUSIVE]
   \<and> length (all_evidence inconclusive_graph [''Test Observation''] []
        ''Inconclusive Failure'') = 1
   \<and> reported (diagnose inconclusive_graph [''Test Observation''] (Some []))
        ''Inconclusive Failure'' INCONCLUSIVE
   \<and> ''Dead Battery'' \<in> set (candidates display_graph [''No Music'', ''Display On''])
   \<and> \<not> list_ex missed_operator (sensor_evidence display_graph [] ''Dead Battery'')
   \<and> spec_contradicting display_graph [''No Music'', ''Display On''] []
        ''Dead Battery'' = []
   \<and> map snd (spec_supporting display_graph [''No Music'', ''Display On''] []
        ''Dead Battery'') = [Some RULES_OUT]
   \<and> ''Dead Battery'' \<notin> set (map failure_mode
        (diagnose display_graph [''No Music'', ''Display On''] (Some [])))
   \<and> ''Blown Fuse'' \<in> set (candidates display_graph [''No Music'', ''Display On''])
   \<and> \<not> list_ex missed_operator (sensor_evidence display_graph [] ''Blown Fuse'')
   \<and> spec_contradicting display_graph [''No Music'', ''Display On''] []
        ''Blown Fuse'' = []
   \<and> all_evidence display_graph [''No Music'', ''Display On''] [] ''Blown Fuse'' = []
   \<and> ''Blown Fuse'' \<notin> set (map failure_mode
        (diagnose display_graph [''No Music'', ''Display On''] (Some [])))"
proof -
  have a1: "''Dead Battery'' \<in> set (candidates battery_graph [''No Music''])"
    by code_simp
  have a2: "\<not> list_ex missed_operator
         (sensor_evidence battery_graph [(''battery_voltage'', 7 / 2)] ''Dead Battery'')"
    by code_simp
  have a3: "spec_contradicting battery_graph [''No Music'']
        [(''battery_voltage'', 7 / 2)] ''Dead Battery'' = []"
    by code_simp
  have a4: "map snd (spec_supporting battery_graph [''No Music'']
        [(''battery_voltage'', 7 / 2)] ''Dead Battery'') = [Some CONFIRMS]"
    by code_simp
  have b1: "''Speaker Broken'' \<in> set (candidates sound_graph [''No Sound'', ''Buzz or Hiss''])"
    by code_simp
  have b2: "\<not> list_ex missed_operator
         (sensor_evidence sound_graph [(''battery_voltage'', 3)] ''Speaker Broken'')"
    by code_simp
  have b3: "spec_contradicting sound_graph [''No Sound'', ''Buzz or Hiss'']
        [(''battery_voltage'', 3)] ''Speaker Broken'' = []"
    by code_simp
  have b4: "map snd (spec_supporting sound_graph [''No Sound'', ''Buzz or Hiss'']
        [(''battery_voltage'', 3)] ''Speaker Broken'') = [Some SUGGESTS]"
    by code_simp
  have c1: "''Inconclusive Failure'' \<in> set (candidates inconclusive_graph [''Test Observation''])"
    by code_simp
  have c2: "\<not> list_ex missed_operator
         (sensor_evidence inconclusive_graph [] ''Inconclusive Failure'')"
    by code_simp
  have c3: "spec_contradicting inconclusive_graph [''Test Observation''] []
        ''Inconclusive Failure'' = []"
    by code_simp
  have c4: "map snd (spec_supporting inconclusive_graph [''Test Observation''] []
        ''Inconclusive Failure'') = [Some INCONCLUSIVE]"
    by code_simp
  have c5: "length (all_evidence inconclusive_graph [''Test Observation''] []
        ''Inconclusive Failure'') = 1"
    by code_simp
  have d1: "''Dead Battery'' \<in> set (candidates display_graph [''No Music'', ''Display On''])"
    by code_simp
  have d2: "\<not> list_ex missed_operator (sensor_evidence display_graph [] ''Dead Battery'')"
    by code_simp
  have d3: "spec_contradicting display_graph [''No Music'', ''Display On''] []
        ''Dead Battery'' = []"
    by code_simp
  have d4: "map snd (spec_supporting display_graph [''No Music'', ''Display On''] []
        ''Dead Battery'') = [Some RULES_OUT]"
    by code_simp
  have e1: "''Blown Fuse'' \<in> set (candidates display_graph [''No Music'', ''Display On''])"
    by code_simp
  have e2: "\<not> list_ex missed_operator (sensor_evidence display_graph [] ''Blown Fuse'')"
    by code_simp
  have e3: "spec_contradicting display_graph [''No Music'', ''Display On''] []
        ''Blown Fuse'' = []"
    by code_simp
  have e4: "all_evidence display_graph [''No Music'', ''Display On''] [] ''Blown Fuse'' = []"
    by code_simp
  from c5 have c6: "all_evidence inconclusive_graph [''Test Observation''] []
        ''Inconclusive Failure'' \<noteq> []"
    by auto
  have A: "reported (diagnose battery_graph [''No Music''] (Some [(''battery_voltage'', 7 / 2)]))
        ''Dead Battery'' CONFIRMS"
    using precedence_order [OF a1 a2 a3] a4 by simp
  have B: "reported (diagnose sound_graph [''No Sound'', ''Buzz or Hiss'']
        (Some [(''battery_voltage'', 3)])) ''Speaker Broken'' SUGGESTS"
    using precedence_order [OF b1 b2 b3] b4 by simp
  have C: "reported (diagnose inconclusive_graph [''Test Observation''] (Some []))
        ''Inconclusive Failure'' INCONCLUSIVE"
    using precedence_order [OF c1 c2 c3] c4 c6 by simp
  have D: "''Dead Battery'' \<notin> set (map failure_mode
        (diagnose display_graph [''No Music'', ''Display On''] (Some [])))"
    using precedence_order [OF d1 d2 d3] d4 by simp
  have E: "''Blown Fuse'' \<notin> set (map failure_mode
        (diagnose display_graph [''No Music'', ''Display On''] (Some [])))"
    using precedence_order [OF e1 e2 e3] e4 by simp
  show ?thesis
    by (intro conjI)
      (fact a1 a2 a3 a4 A b1 b2 b3 b4 B c1 c2 c3 c4 c5 C d1 d2 d3 d4 D e1 e2 e3 e4 E)+
qed

text \<open>
  The claim as stated fails on \<open>display_graph\<close>, which has no sensor relationship:
  "Dead Battery" has one supporting contribution, of strength \<^verbatim>\<open>rules_out\<close>, and
  "Blown Fuse" has no contribution; neither has a contradicting one, and neither is
  in the output.
\<close>

theorem precedence_order_counterexample:
  "''Dead Battery'' \<in> set (candidates display_graph [''No Music'', ''Display On''])
   \<and> spec_contributions display_graph [''No Music'', ''Display On''] [] ''Dead Battery''
       = [(''Display On'', Some RULES_OUT, Supporting)]
   \<and> ''Blown Fuse'' \<in> set (candidates display_graph [''No Music'', ''Display On''])
   \<and> spec_contributions display_graph [''No Music'', ''Display On''] [] ''Blown Fuse'' = []
   \<and> diagnose display_graph [''No Music'', ''Display On''] (Some []) = []
   \<and> \<not> reported (diagnose display_graph [''No Music'', ''Display On''] (Some []))
          ''Dead Battery'' INCONCLUSIVE
   \<and> \<not> reported (diagnose display_graph [''No Music'', ''Display On''] (Some []))
          ''Blown Fuse'' INCONCLUSIVE"
  by code_simp

section \<open>Operators\<close>

lemma sensor_row:
  assumes "e \<in> set (evidence g)" and "target e = F" and "source_kind e = SensorReading"
    and "map_of sr (source e) = Some v"
  shows "e \<in> set (all_evidence g observations sr F)"
proof -
  from assms(4) have "source e \<in> set (map fst sr)"
    by (metis map_of_eq_None_iff option.distinct(1) set_map)
  with assms(1-3) show ?thesis
    by (simp add: all_evidence_def sensor_evidence_def)
qed

lemma evaluated_operator:
  assumes "source_kind e = SensorReading" and "map_of sr (source e) = Some v"
    and "operator e = Some oper" and "oper \<in> {''<'', ''>'', ''=''}"
    and "threshold e = Some (TNum t)"
  shows "effective_strength sr e = (if spec_compare oper v t then when_true_strength e else None)"
    and "contradicting_flag sr e = (\<not> spec_compare oper v t)"
    and "when_false_strength_value sr e =
           (if spec_compare oper v t then None else when_false_strength e)"
  using assms
  by (auto simp: effective_strength_def contradicting_flag_def when_false_strength_value_def
      spec_compare_def reading_def taken_def cy_and_def op_is_def)

lemma other_operator:
  assumes "operator e \<notin> Some ` set operator_values"
  shows "source_kind e = SensorReading \<Longrightarrow> effective_strength sr e = None"
    and "\<not> contradicting_flag sr e"
    and "when_false_strength_value sr e = None"
  using assms
  by (auto simp: effective_strength_def contradicting_flag_def when_false_strength_value_def
      operator_values_def taken_def cy_and_def op_is_def split: option.splits)

text \<open>
  C4 (operator evaluation), as amended. For every sensor-sourced evidence
  relationship whose sensor has a value \<open>v\<close> in the assignment, the relationship is
  a row of its failure mode, and: when its operator is one of \<open>=\<close>, \<open><\<close>, \<open>>\<close> and
  its threshold is a number \<open>t\<close>, the comparison of \<open>v\<close> with \<open>t\<close> is evaluated
  and the row contributes \<^verbatim>\<open>when_true_strength\<close> as supporting when it holds and
  \<^verbatim>\<open>when_false_strength\<close> as contradicting when it does not; when its operator is
  not a value of \<^verbatim>\<open>ComparisonOperator\<close>, nothing is raised and the row contributes
  neither a strength nor a contradiction.
\<close>

theorem operator_evaluation:
  assumes "e \<in> set (evidence g)" and "target e = F" and "source_kind e = SensorReading"
    and "map_of sr (source e) = Some v"
  shows "e \<in> set (all_evidence g observations sr F)
     \<and> (\<forall>oper t. operator e = Some oper \<and> oper \<in> {''<'', ''>'', ''=''}
            \<and> threshold e = Some (TNum t) \<longrightarrow>
          effective_strength sr e = (if spec_compare oper v t then when_true_strength e else None)
          \<and> contradicting_flag sr e = (\<not> spec_compare oper v t)
          \<and> when_false_strength_value sr e =
              (if spec_compare oper v t then None else when_false_strength e))
     \<and> (operator e \<notin> Some ` set operator_values \<longrightarrow>
          effective_strength sr e = None \<and> \<not> contradicting_flag sr e
          \<and> when_false_strength_value sr e = None)"
proof (intro conjI allI impI)
  show "e \<in> set (all_evidence g observations sr F)"
    using assms by (rule sensor_row)
next
  fix oper t
  assume a: "operator e = Some oper \<and> oper \<in> {''<'', ''>'', ''=''} \<and> threshold e = Some (TNum t)"
  then have o: "operator e = Some oper" and m: "oper \<in> {''<'', ''>'', ''=''}"
    and t: "threshold e = Some (TNum t)" by blast+
  show "effective_strength sr e = (if spec_compare oper v t then when_true_strength e else None)"
    using evaluated_operator(1) [OF assms(3,4) o m t] .
  show "contradicting_flag sr e = (\<not> spec_compare oper v t)"
    using evaluated_operator(2) [OF assms(3,4) o m t] .
  show "when_false_strength_value sr e =
              (if spec_compare oper v t then None else when_false_strength e)"
    using evaluated_operator(3) [OF assms(3,4) o m t] .
next
  assume n: "operator e \<notin> Some ` set operator_values"
  show "effective_strength sr e = None"
    using other_operator(1) [OF n assms(3)] .
  show "\<not> contradicting_flag sr e"
    using other_operator(2) [OF n] .
  show "when_false_strength_value sr e = None"
    using other_operator(3) [OF n] .
qed

theorem operator_evaluation_witness:
  "battery_edge \<in> set (evidence battery_graph)
   \<and> target battery_edge = ''Dead Battery''
   \<and> source_kind battery_edge = SensorReading
   \<and> map_of [(''battery_voltage'', 12 :: rat)] (source battery_edge) = Some 12
   \<and> battery_edge \<in> set (all_evidence battery_graph [''No Music'']
        [(''battery_voltage'', 12)] ''Dead Battery'')
   \<and> spec_compare ''<'' 12 4 = False
   \<and> effective_strength [(''battery_voltage'', 12)] battery_edge = None
   \<and> contradicting_flag [(''battery_voltage'', 12)] battery_edge = True
   \<and> when_false_strength_value [(''battery_voltage'', 12)] battery_edge = Some RULES_OUT"
proof -
  have a1: "battery_edge \<in> set (evidence battery_graph)" by (simp add: battery_graph_def)
  have a2: "target battery_edge = ''Dead Battery''" by (simp add: battery_edge_def)
  have a3: "source_kind battery_edge = SensorReading" by (simp add: battery_edge_def)
  have a4: "map_of [(''battery_voltage'', 12::rat)] (source battery_edge) = Some 12"
    by (simp add: battery_edge_def)
  have o: "operator battery_edge = Some ''<''" "threshold battery_edge = Some (TNum 4)"
    "when_false_strength battery_edge = Some RULES_OUT"
    by (simp_all add: battery_edge_def)
  have c: "spec_compare ''<'' 12 4 = False" by (simp add: spec_compare_def)
  from operator_evaluation [OF a1 a2 a3 a4, of "[''No Music'']"] o c
  have "battery_edge \<in> set (all_evidence battery_graph [''No Music'']
        [(''battery_voltage'', 12)] ''Dead Battery'')
     \<and> effective_strength [(''battery_voltage'', 12)] battery_edge = None
     \<and> contradicting_flag [(''battery_voltage'', 12)] battery_edge = True
     \<and> when_false_strength_value [(''battery_voltage'', 12)] battery_edge = Some RULES_OUT"
    by auto
  with a1 a2 a3 a4 c show ?thesis by simp
qed

text \<open>
  The claim as stated fails for an operator outside the six: with \<^verbatim>\<open>!=\<close> the call
  returns a list, and the relationship has contributed nothing.
\<close>

theorem operator_evaluation_counterexample:
  "''!='' \<notin> set operator_values
   \<and> map operator (evidence ne_graph) = [Some ''!='']
   \<and> diagnose ne_graph [''No Music''] (Some [(''battery_voltage'', 12)]) =
     [\<lparr> failure_mode = ''Dead Battery'', confidence = INCONCLUSIVE,
        supporting_evidence = [''battery_voltage''], contradicting_evidence = [],
        explanation = None \<rparr>]
   \<and> strengths [(''battery_voltage'', 12)]
        (all_evidence ne_graph [''No Music''] [(''battery_voltage'', 12)] ''Dead Battery'') = []
   \<and> false_strengths [(''battery_voltage'', 12)]
        (all_evidence ne_graph [''No Music''] [(''battery_voltage'', 12)] ''Dead Battery'') = []"
  by code_simp

section \<open>Scenarios\<close>

text \<open>
  C5 (concrete scenarios). On the battery graph, \<^verbatim>\<open>diagnose(["No Music"],
  {"battery_voltage": 3.5})\<close> returns exactly "Dead Battery" with confidence
  \<^verbatim>\<open>confirms\<close> and supporting evidence \<^verbatim>\<open>["battery_voltage"]\<close>, and at 12.0 it
  returns the empty list. On the graph with two failure modes that cause "No Sound",
  one confirmed by the sensor below its threshold and one suggested by an
  observation, both are returned, the \<^verbatim>\<open>confirms\<close> record first.
\<close>

theorem concrete_scenarios:
  "diagnose battery_graph [''No Music''] (Some [(''battery_voltage'', 7 / 2)]) =
     [\<lparr> failure_mode = ''Dead Battery'', confidence = CONFIRMS,
        supporting_evidence = [''battery_voltage''], contradicting_evidence = [],
        explanation = None \<rparr>]
   \<and> diagnose battery_graph [''No Music''] (Some [(''battery_voltage'', 12)]) = []
   \<and> diagnose sound_graph [''No Sound'', ''Buzz or Hiss''] (Some [(''battery_voltage'', 3)]) =
     [\<lparr> failure_mode = ''Dead Battery'', confidence = CONFIRMS,
        supporting_evidence = [''battery_voltage''], contradicting_evidence = [],
        explanation = None \<rparr>,
      \<lparr> failure_mode = ''Speaker Broken'', confidence = SUGGESTS,
        supporting_evidence = [''Buzz or Hiss''], contradicting_evidence = [],
        explanation = None \<rparr>]"
  by code_simp

theorem concrete_scenarios_witness:
  "map confidence (diagnose battery_graph [''No Music''] (Some [(''battery_voltage'', 7 / 2)]))
     = [CONFIRMS]
   \<and> length (diagnose battery_graph [''No Music''] (Some [(''battery_voltage'', 12)])) = 0
   \<and> map confidence
        (diagnose sound_graph [''No Sound'', ''Buzz or Hiss''] (Some [(''battery_voltage'', 3)]))
     = [CONFIRMS, SUGGESTS]"
  using concrete_scenarios by simp

section \<open>Evidence lists\<close>

text \<open>
  C6 (polarity of the evidence lists). On \<open>mild_graph\<close> at 12.0 volts the only
  contradicting contributor is "battery_voltage" and the only supporting one is
  "No Music"; the record returned lists "battery_voltage" in
  \<^verbatim>\<open>supporting_evidence\<close> as well as in \<^verbatim>\<open>contradicting_evidence\<close>.
\<close>

theorem supporting_list_holds_contradicting_name:
  "diagnose mild_graph [''No Music''] (Some [(''battery_voltage'', 12)]) = [mild_result]
   \<and> spec_contradicting mild_graph [''No Music''] [(''battery_voltage'', 12)]
        ''Dead Battery'' = [(''battery_voltage'', Some SUGGESTS_AGAINST)]
   \<and> spec_supporting mild_graph [''No Music''] [(''battery_voltage'', 12)]
        ''Dead Battery'' = [(''No Music'', Some CONFIRMS)]
   \<and> ''battery_voltage'' \<in> set (supporting_evidence mild_result)"
  by code_simp

section \<open>Generated observation combinations\<close>











section \<open>Registry matching and the surprise flag\<close>








section \<open>Running a batch\<close>

lemma map_raise_all:
  assumes "\<forall>x \<in> set xs. \<exists>y. f x = Inr y \<and> P x y"
  shows "\<exists>ys. map_raise f xs = Inr ys \<and> list_all2 P xs ys"
  using assms
proof (induction xs)
  case Nil
  show ?case by simp
next
  case (Cons x xs)
  then obtain y where y: "f x = Inr y" "P x y" by auto
  from Cons obtain ys where ys: "map_raise f xs = Inr ys" "list_all2 P xs ys" by auto
  from y ys have "map_raise f (x # xs) = Inr (y # ys) \<and> list_all2 P (x # xs) (y # ys)"
    by simp
  then show ?case by blast
qed

lemma map_raise_first_error:
  assumes "\<forall>x \<in> set pre. \<exists>y. f x = Inr y" and "f c = Inl err"
  shows "map_raise f (pre @ c # post) = Inl err"
  using assms(1)
proof (induction pre)
  case Nil
  show ?case using assms(2) by simp
next
  case (Cons x pre)
  then obtain y where "f x = Inr y" by auto
  with Cons show ?case by simp
qed

lemma run_test_case_raises:
  "diagnostic_engine tt (tc_observations c) (tc_sensor_values c) = Inl err
     \<Longrightarrow> run_test_case tt c = Inl err"
  by (simp add: run_test_case_def)

lemma run_test_case_returns:
  "diagnostic_engine tt (tc_observations c) (tc_sensor_values c) = Inr ds
     \<Longrightarrow> \<exists>r. run_test_case tt c = Inr r \<and> inputs r = c"
  by (simp add: run_test_case_def Let_def)

lemma run_truth_table_batch:
  assumes "test_cases = Some cs
     \<or> (test_cases = None \<and> generate_test_cases fl tt vo fo vs fsv = Inr cs)"
  shows "run_truth_table fl tt vo fo vs fsv test_cases = map_raise (run_test_case tt) cs"
  using assms by (auto simp: run_truth_table_def)

text \<open>
  C9 (batch robustness), as amended. For a batch given or generated: when the
  diagnosis call raises for a case and has returned for every case before it,
  \<open>run_truth_table\<close> raises that error and returns no result; when the call
  returns for every case, it returns one result per case, in the order of the cases.
\<close>

theorem batch_stops_at_first_error:
  assumes "test_cases = Some cs
     \<or> (test_cases = None \<and> generate_test_cases fl tt vo fo vs fsv = Inr cs)"
  shows "(\<forall>pre c post err.
            cs = pre @ c # post
            \<and> (\<forall>c' \<in> set pre. \<exists>ds.
                  diagnostic_engine tt (tc_observations c') (tc_sensor_values c') = Inr ds)
            \<and> diagnostic_engine tt (tc_observations c) (tc_sensor_values c) = Inl err
            \<longrightarrow> run_truth_table fl tt vo fo vs fsv test_cases = Inl err)
     \<and> ((\<forall>c \<in> set cs. \<exists>ds.
            diagnostic_engine tt (tc_observations c) (tc_sensor_values c) = Inr ds)
          \<longrightarrow> (\<exists>rs. run_truth_table fl tt vo fo vs fsv test_cases = Inr rs
                 \<and> map inputs rs = cs))"
proof (intro conjI allI impI)
  fix pre c post err
  assume a: "cs = pre @ c # post
            \<and> (\<forall>c' \<in> set pre. \<exists>ds.
                  diagnostic_engine tt (tc_observations c') (tc_sensor_values c') = Inr ds)
            \<and> diagnostic_engine tt (tc_observations c) (tc_sensor_values c) = Inl err"
  then have pre: "\<forall>c' \<in> set pre. \<exists>r. run_test_case tt c' = Inr r"
    using run_test_case_returns by blast
  from a have c: "run_test_case tt c = Inl err"
    using run_test_case_raises by blast
  from a have "run_truth_table fl tt vo fo vs fsv test_cases
      = map_raise (run_test_case tt) (pre @ c # post)"
    using run_truth_table_batch [OF assms] by simp
  with pre c show "run_truth_table fl tt vo fo vs fsv test_cases = Inl err"
    by (simp add: map_raise_first_error)
next
  assume "\<forall>c \<in> set cs. \<exists>ds.
            diagnostic_engine tt (tc_observations c) (tc_sensor_values c) = Inr ds"
  then have "\<forall>c \<in> set cs. \<exists>r. run_test_case tt c = Inr r \<and> inputs r = c"
    using run_test_case_returns by blast
  then obtain rs where rs: "map_raise (run_test_case tt) cs = Inr rs"
    "list_all2 (\<lambda>c r. inputs r = c) cs rs"
    using map_raise_all [of cs "run_test_case tt" "\<lambda>c r. inputs r = c"] by blast
  from rs(2) have "map inputs rs = cs"
    by (induction rule: list_all2_induct) simp_all
  with rs(1) show "\<exists>rs. run_truth_table fl tt vo fo vs fsv test_cases = Inr rs
                 \<and> map inputs rs = cs"
    using run_truth_table_batch [OF assms] by simp
qed

theorem batch_stops_at_first_error_witness:
  "run_truth_table unrounded flaky_table None None None None
       (Some [low_battery_case, silent_case, music_case]) = Inl QueryError
   \<and> (\<exists>rs. run_truth_table unrounded battery_table None None None None
         (Some [low_battery_case, silent_case, music_case]) = Inr rs
       \<and> map inputs rs = [low_battery_case, silent_case, music_case])"
proof -
  have t: "Some [low_battery_case, silent_case, music_case]
        = Some [low_battery_case, silent_case, music_case]
     \<or> (Some [low_battery_case, silent_case, music_case] = None
        \<and> generate_test_cases unrounded flaky_table None None None None
            = Inr [low_battery_case, silent_case, music_case])"
    by simp
  have t': "Some [low_battery_case, silent_case, music_case]
        = Some [low_battery_case, silent_case, music_case]
     \<or> (Some [low_battery_case, silent_case, music_case] = None
        \<and> generate_test_cases unrounded battery_table None None None None
            = Inr [low_battery_case, silent_case, music_case])"
    by simp
  have s: "[low_battery_case, silent_case, music_case] = [low_battery_case] @ silent_case # [music_case]"
    by simp
  have p: "\<forall>c' \<in> set [low_battery_case]. \<exists>ds.
      diagnostic_engine flaky_table (tc_observations c') (tc_sensor_values c') = Inr ds"
    by (simp add: flaky_table_def flaky_engine_def low_battery_case_def engine_of_def)
  have f: "diagnostic_engine flaky_table (tc_observations silent_case)
      (tc_sensor_values silent_case) = Inl QueryError"
    by (simp add: flaky_table_def flaky_engine_def silent_case_def)
  have g: "\<forall>c \<in> set [low_battery_case, silent_case, music_case]. \<exists>ds.
      diagnostic_engine battery_table (tc_observations c) (tc_sensor_values c) = Inr ds"
    by (simp add: battery_table_def engine_of_def)
  from batch_stops_at_first_error [OF t] s p f
  have 1: "run_truth_table unrounded flaky_table None None None None
       (Some [low_battery_case, silent_case, music_case]) = Inl QueryError"
    by blast
  from batch_stops_at_first_error [OF t'] g
  have 2: "\<exists>rs. run_truth_table unrounded battery_table None None None None
         (Some [low_battery_case, silent_case, music_case]) = Inr rs
       \<and> map inputs rs = [low_battery_case, silent_case, music_case]"
    by blast
  from 1 2 show ?thesis by blast
qed

text \<open>
  The claim as stated fails on a generated batch of two cases: the diagnosis call
  raises for the first one, the second one has a result of its own, and the batch
  ends with the error.
\<close>

theorem batch_robustness_counterexample:
  "generate_test_cases unrounded flaky_table (Some [''No Music'']) None None None
     = Inr [silent_case, music_case]
   \<and> diagnostic_engine flaky_table (tc_observations silent_case)
        (tc_sensor_values silent_case) = Inl QueryError
   \<and> run_test_case flaky_table music_case =
       Inr \<lparr> inputs = music_case, diagnosed_failure_modes = [],
             expected_failure_modes = [], unexpected_results = [],
             missing_results = [], has_surprise = False \<rparr>
   \<and> run_truth_table unrounded flaky_table (Some [''No Music'']) None None None None = Inl QueryError"
  by code_simp

section \<open>Test recommendations\<close>

lemma set_first_occurrences: "set (first_occurrences xs) = set xs"
  by (simp add: first_occurrences_def)

lemma distinct_first_occurrences: "distinct (first_occurrences xs)"
  by (simp add: first_occurrences_def)

lemma in_matched:
  "(k, fm) \<in> set (matched g observations) \<longleftrightarrow>
     (fm \<in> set (candidates g observations) \<and>
      (\<exists>e \<in> set (evidence g). target e = fm \<and> source e \<notin> set observations \<and> key_of e = k))"
  by (auto simp: matched_def)

lemma matched_keys:
  "fst ` set (matched g observations)
     = key_of ` {e \<in> set (evidence g). target e \<in> set (candidates g observations)
                    \<and> source e \<notin> set observations}"
proof (intro set_eqI iffI)
  fix k assume "k \<in> fst ` set (matched g observations)"
  then obtain p where "p \<in> set (matched g observations)" "fst p = k" by blast
  then have "(k, snd p) \<in> set (matched g observations)" by (metis prod.collapse)
  then obtain e where "e \<in> set (evidence g)" "target e \<in> set (candidates g observations)"
    "source e \<notin> set observations" "key_of e = k"
    unfolding in_matched by auto
  then show "k \<in> key_of ` {e \<in> set (evidence g). target e \<in> set (candidates g observations)
                    \<and> source e \<notin> set observations}"
    by blast
next
  fix k assume "k \<in> key_of ` {e \<in> set (evidence g). target e \<in> set (candidates g observations)
                    \<and> source e \<notin> set observations}"
  then obtain e where e: "e \<in> set (evidence g)" "target e \<in> set (candidates g observations)"
    "source e \<notin> set observations" "key_of e = k"
    by blast
  then have "(k, target e) \<in> set (matched g observations)"
    unfolding in_matched by blast
  then have "fst (k, target e) \<in> fst ` set (matched g observations)"
    by (rule imageI)
  then show "k \<in> fst ` set (matched g observations)" by simp
qed

lemma groups_keys:
  "map fst (recommendation_groups g observations)
     = first_occurrences (map fst (matched g observations))"
  by (simp add: recommendation_groups_def comp_def)

lemma in_groups:
  "q \<in> set (recommendation_groups g observations) \<longleftrightarrow>
     (fst q \<in> fst ` set (matched g observations) \<and>
      snd q = first_occurrences
                (map snd (filter (\<lambda>m. fst m = fst q) (matched g observations))))"
proof -
  let ?F = "\<lambda>k. first_occurrences
                (map snd (filter (\<lambda>m. fst m = k) (matched g observations)))"
  have eq: "set (recommendation_groups g observations)
      = (\<lambda>k. (k, ?F k)) ` fst ` set (matched g observations)"
    by (simp add: recommendation_groups_def set_first_occurrences)
  show ?thesis
  proof
    assume "q \<in> set (recommendation_groups g observations)"
    then obtain k where "k \<in> fst ` set (matched g observations)" "q = (k, ?F k)"
      unfolding eq by blast
    then show "fst q \<in> fst ` set (matched g observations) \<and> snd q = ?F (fst q)"
      by simp
  next
    assume a: "fst q \<in> fst ` set (matched g observations) \<and> snd q = ?F (fst q)"
    then have "q = (fst q, ?F (fst q))" by (simp add: prod_eq_iff)
    with a show "q \<in> set (recommendation_groups g observations)"
      unfolding eq by blast
  qed
qed

lemma set_query:
  "set (recommendation_query g observations) = set (recommendation_groups g observations)"
  by (simp add: recommendation_query_def)

lemma distinct_query_keys:
  "distinct (map fst (recommendation_query g observations))"
proof -
  have d: "distinct (map fst (recommendation_groups g observations))"
    by (simp only: groups_keys distinct_first_occurrences)
  then have "distinct (recommendation_groups g observations)"
    and "inj_on fst (set (recommendation_groups g observations))"
    by (simp_all add: distinct_map)
  then show ?thesis
    by (simp add: distinct_map set_query) (simp add: recommendation_query_def)
qed

lemma query_descending:
  assumes "i \<le> j" and "j < length (recommendation_query g observations)"
  shows "length (snd (recommendation_query g observations ! j))
       \<le> length (snd (recommendation_query g observations ! i))"
proof -
  let ?q = "recommendation_query g observations"
  have "sorted (map (\<lambda>r. - int (length (snd r))) ?q)"
    unfolding recommendation_query_def by (rule sorted_sort_key)
  then have "map (\<lambda>r. - int (length (snd r))) ?q ! i \<le> map (\<lambda>r. - int (length (snd r))) ?q ! j"
    using assms by (simp add: sorted_iff_nth_mono del: nth_map)
  then show ?thesis using assms by simp
qed

lemma map_raise_Inr:
  "map_raise f xs = Inr ys \<Longrightarrow> list_all2 (\<lambda>x y. f x = Inr y) xs ys"
proof (induction xs arbitrary: ys)
  case Nil
  then show ?case by simp
next
  case (Cons x xs)
  then show ?case by (auto split: sum.splits)
qed

lemma to_recommendation_fields:
  assumes "to_recommendation q = Inr r"
  shows "rec_name r = fst (snd (fst q))" and "would_help_with r = snd q"
  using assms
  by (cases q rule: to_recommendation.cases; auto split: option.splits sum.splits)+

lemma query_keys:
  "set (map fst (recommendation_query g observations)) = fst ` set (matched g observations)"
proof -
  have "set (map fst (recommendation_query g observations))
      = set (map fst (recommendation_groups g observations))"
    by (simp add: set_query)
  also have "\<dots> = set (first_occurrences (map fst (matched g observations)))"
    by (simp only: groups_keys)
  also have "\<dots> = fst ` set (matched g observations)"
    by (simp add: set_first_occurrences)
  finally show ?thesis .
qed

text \<open>
  C10 (recommendation filtering, grouping and order), as amended. Every record
  \<open>get_test_recommendations\<close> returns names an evidence source that is not in the
  observation list. The records are the rows of the query, in order, and there is
  exactly one row for every distinct combination of source node, operator, threshold
  and \<^verbatim>\<open>when_true_strength\<close> found on an evidence relationship from such a source
  to a candidate; its \<^verbatim>\<open>would_help_with\<close> holds, without repetition, the candidate
  failure modes that have a relationship with that combination. The records are in
  descending order of the size of \<^verbatim>\<open>would_help_with\<close>.
\<close>

theorem recommendations_grouped_and_ordered:
  assumes "get_test_recommendations g observations = Inr recs"
  shows "(\<forall>r \<in> set recs. rec_name r \<notin> set observations)
     \<and> map (\<lambda>r. (rec_name r, would_help_with r)) recs
         = map (\<lambda>q. (fst (snd (fst q)), snd q)) (recommendation_query g observations)
     \<and> distinct (map fst (recommendation_query g observations))
     \<and> set (map fst (recommendation_query g observations))
         = key_of ` {e \<in> set (evidence g). target e \<in> set (candidates g observations)
                        \<and> source e \<notin> set observations}
     \<and> (\<forall>q \<in> set (recommendation_query g observations).
           distinct (snd q)
           \<and> set (snd q) = {fm \<in> set (candidates g observations).
                 \<exists>e \<in> set (evidence g). target e = fm \<and> source e \<notin> set observations
                    \<and> key_of e = fst q})
     \<and> (\<forall>i j. i \<le> j \<and> j < length recs \<longrightarrow>
           length (would_help_with (recs ! j)) \<le> length (would_help_with (recs ! i)))"
proof -
  let ?q = "recommendation_query g observations"
  from assms have all2: "list_all2 (\<lambda>q r. to_recommendation q = Inr r) ?q recs"
    unfolding get_test_recommendations_def by (rule map_raise_Inr)
  then have len: "length recs = length ?q" by (simp add: list_all2_lengthD)
  have nth: "\<And>i. i < length recs \<Longrightarrow> to_recommendation (?q ! i) = Inr (recs ! i)"
  proof -
    fix i assume "i < length recs"
    then have "i < length ?q" using len by simp
    with all2 show "to_recommendation (?q ! i) = Inr (recs ! i)"
      by (rule list_all2_nthD)
  qed
  have fields: "map (\<lambda>r. (rec_name r, would_help_with r)) recs
         = map (\<lambda>q. (fst (snd (fst q)), snd q)) ?q"
  proof (rule nth_equalityI)
    show "length (map (\<lambda>r. (rec_name r, would_help_with r)) recs)
        = length (map (\<lambda>q. (fst (snd (fst q)), snd q)) ?q)"
      using len by simp
  next
    fix i assume "i < length (map (\<lambda>r. (rec_name r, would_help_with r)) recs)"
    then have i: "i < length recs" by simp
    have "rec_name (recs ! i) = fst (snd (fst (?q ! i)))"
      using nth [OF i] by (rule to_recommendation_fields(1))
    moreover have "would_help_with (recs ! i) = snd (?q ! i)"
      using nth [OF i] by (rule to_recommendation_fields(2))
    ultimately show "map (\<lambda>r. (rec_name r, would_help_with r)) recs ! i
        = map (\<lambda>q. (fst (snd (fst q)), snd q)) ?q ! i"
      using i len by simp
  qed
  have keys: "set (map fst ?q)
         = key_of ` {e \<in> set (evidence g). target e \<in> set (candidates g observations)
                        \<and> source e \<notin> set observations}"
  proof -
    have "set (map fst ?q) = fst ` set (matched g observations)"
      by (rule query_keys)
    also have "\<dots> = key_of ` {e \<in> set (evidence g). target e \<in> set (candidates g observations)
                        \<and> source e \<notin> set observations}"
      by (rule matched_keys)
    finally show ?thesis .
  qed
  have helps: "\<forall>q \<in> set ?q.
           distinct (snd q)
           \<and> set (snd q) = {fm \<in> set (candidates g observations).
                 \<exists>e \<in> set (evidence g). target e = fm \<and> source e \<notin> set observations
                    \<and> key_of e = fst q}"
  proof
    fix q assume "q \<in> set ?q"
    then have s: "snd q = first_occurrences
                (map snd (filter (\<lambda>m. fst m = fst q) (matched g observations)))"
      by (simp add: set_query in_groups)
    have "set (snd q) = {fm. (fst q, fm) \<in> set (matched g observations)}"
      unfolding s set_first_occurrences by force
    then have "set (snd q) = {fm \<in> set (candidates g observations).
                 \<exists>e \<in> set (evidence g). target e = fm \<and> source e \<notin> set observations
                    \<and> key_of e = fst q}"
      by (simp add: in_matched)
    moreover have "distinct (snd q)"
      unfolding s by (rule distinct_first_occurrences)
    ultimately show "distinct (snd q)
           \<and> set (snd q) = {fm \<in> set (candidates g observations).
                 \<exists>e \<in> set (evidence g). target e = fm \<and> source e \<notin> set observations
                    \<and> key_of e = fst q}"
      by blast
  qed
  have names: "\<forall>r \<in> set recs. rec_name r \<notin> set observations"
  proof
    fix r assume "r \<in> set recs"
    then obtain i where i: "i < length recs" "recs ! i = r"
      by (auto simp: in_set_conv_nth)
    then have n: "rec_name r = fst (snd (fst (?q ! i)))"
      using nth to_recommendation_fields(1) by blast
    from i len have "fst (?q ! i) \<in> set (map fst ?q)" by simp
    then have "fst (?q ! i)
        \<in> key_of ` {e \<in> set (evidence g). target e \<in> set (candidates g observations)
                        \<and> source e \<notin> set observations}"
      by (simp only: keys)
    then obtain e where e: "e \<in> {e \<in> set (evidence g).
          target e \<in> set (candidates g observations) \<and> source e \<notin> set observations}"
      "fst (?q ! i) = key_of e"
      by (rule imageE)
    from e(1) have "source e \<notin> set observations" by simp
    moreover have "fst (snd (fst (?q ! i))) = source e"
      by (simp add: e(2) key_of_def)
    ultimately show "rec_name r \<notin> set observations"
      using n by simp
  qed
  have order: "\<forall>i j. i \<le> j \<and> j < length recs \<longrightarrow>
           length (would_help_with (recs ! j)) \<le> length (would_help_with (recs ! i))"
  proof (intro allI impI)
    fix i j assume ij: "i \<le> j \<and> j < length recs"
    then have "would_help_with (recs ! j) = snd (?q ! j)" "would_help_with (recs ! i) = snd (?q ! i)"
      using nth to_recommendation_fields(2) by simp_all
    then show "length (would_help_with (recs ! j)) \<le> length (would_help_with (recs ! i))"
      using ij len query_descending [of i j g observations] by simp
  qed
  show ?thesis
    by (rule conjI [OF names conjI [OF fields conjI [OF distinct_query_keys
          conjI [OF keys conjI [OF helps order]]]]])
qed


text \<open>
  The call returns when every evidence relationship has a \<^verbatim>\<open>when_true_strength\<close>
  and an operator of \<^verbatim>\<open>ComparisonOperator\<close> or none.
\<close>

lemma recommendations_return:
  assumes "\<forall>e \<in> set (evidence g). when_true_strength e \<noteq> None
             \<and> (operator e = None \<or> operator e \<in> Some ` set operator_values)"
  shows "\<exists>recs. get_test_recommendations g observations = Inr recs"
proof -
  have "\<forall>q \<in> set (recommendation_query g observations).
          \<exists>r. to_recommendation q = Inr r \<and> True"
  proof
    fix q assume "q \<in> set (recommendation_query g observations)"
    then have "fst q \<in> set (map fst (recommendation_query g observations))" by simp
    then have "fst q \<in> fst ` set (matched g observations)"
      by (simp only: query_keys)
    then obtain e where e: "e \<in> set (evidence g)" "fst q = key_of e"
      unfolding matched_keys by auto
    with assms obtain s where s: "when_true_strength e = Some s"
      and o: "operator e = None \<or> operator e \<in> Some ` set operator_values"
      by auto
    from o obtain o' where "to_operator (operator e) = Inr o'"
      by (auto simp: to_operator_def)
    with s e(2) show "\<exists>r. to_recommendation q = Inr r \<and> True"
      by (cases q) (auto simp: key_of_def)
  qed
  then obtain recs where "map_raise to_recommendation (recommendation_query g observations)
      = Inr recs"
    using map_raise_all [of "recommendation_query g observations" to_recommendation "\<lambda>q r. True"]
    by blast
  then show ?thesis by (simp add: get_test_recommendations_def)
qed

theorem recommendations_grouped_and_ordered_witness:
  "get_test_recommendations shared_graph [''No Sound''] =
     Inr [\<lparr> rec_name = ''Dim Display'', rec_type = ''observation'',
             strength_if_true = SUGGESTS,
             would_help_with = [''Dead Battery'', ''Speaker Broken''],
             rec_operator = None, rec_threshold = None \<rparr>,
          \<lparr> rec_name = ''Buzz or Hiss'', rec_type = ''observation'',
             strength_if_true = CONFIRMS,
             would_help_with = [''Speaker Broken''],
             rec_operator = None, rec_threshold = None \<rparr>]
   \<and> map (\<lambda>q. (fst (snd (fst q)), snd q)) (recommendation_query shared_graph [''No Sound''])
      = [(''Dim Display'', [''Dead Battery'', ''Speaker Broken'']),
         (''Buzz or Hiss'', [''Speaker Broken''])]
   \<and> distinct (map fst (recommendation_query shared_graph [''No Sound'']))"
proof -
  have a: "get_test_recommendations shared_graph [''No Sound''] =
     Inr [\<lparr> rec_name = ''Dim Display'', rec_type = ''observation'',
             strength_if_true = SUGGESTS,
             would_help_with = [''Dead Battery'', ''Speaker Broken''],
             rec_operator = None, rec_threshold = None \<rparr>,
          \<lparr> rec_name = ''Buzz or Hiss'', rec_type = ''observation'',
             strength_if_true = CONFIRMS,
             would_help_with = [''Speaker Broken''],
             rec_operator = None, rec_threshold = None \<rparr>]"
    by code_simp
  from recommendations_grouped_and_ordered [OF a] a show ?thesis
    by simp
qed

text \<open>
  The claim as stated fails for a sensor with two evidence relationships of different
  operators: two records carry its name.
\<close>

theorem recommendations_grouped_and_ordered_counterexample:
  "get_test_recommendations two_edge_graph [''No Sound''] =
     Inr [\<lparr> rec_name = ''battery_voltage'', rec_type = ''sensor_reading'',
             strength_if_true = CONFIRMS,
             would_help_with = [''Dead Battery''],
             rec_operator = Some ''<'', rec_threshold = Some (TNum (7 / 2)) \<rparr>,
          \<lparr> rec_name = ''battery_voltage'', rec_type = ''sensor_reading'',
             strength_if_true = SUGGESTS,
             would_help_with = [''Speaker Broken''],
             rec_operator = Some ''>'', rec_threshold = Some (TNum (7 / 2)) \<rparr>]"
  by code_simp

end
